theory Spec2Isabelle
  imports Complex_Main "HOL-Library.Multiset"
begin

section \<open>Data model\<close>

text \<open>
  Exceptions of the Python source are values: the byte counting of the client
  can meet an object without \<^verbatim>\<open>nbytes\<close> (AttributeError), \<^verbatim>\<open>int(...)\<close> of a
  float fails on nan (ValueError) and on an infinity (OverflowError),
  \<^verbatim>\<open>model.set_weights\<close> rejects weights that do not fit the architecture
  (ValueError) and objects that have no shape (AttributeError), and
  \<^verbatim>\<open>model.fit\<close> rejects data it cannot split into a training and a
  validation part (ValueError).
\<close>

datatype exn = AttributeError | ValueError | OverflowError

text \<open>
  A numpy array: element type, shape, and the elements in row-major order.
  Elements are exact rationals; the rounding of floating-point arithmetic is
  not part of this model.
\<close>

datatype dtype = Float16 | Float32 | Float64

fun itemsize :: "dtype \<Rightarrow> nat" where
  "itemsize Float16 = 2"
| "itemsize Float32 = 4"
| "itemsize Float64 = 8"

record ndarray =
  dtype :: dtype
  shape :: "nat list"
  data :: "rat list"

text \<open>\<^verbatim>\<open>w.nbytes\<close>: the number of elements times the size of one element.\<close>

definition nbytes :: "ndarray \<Rightarrow> nat" where
  "nbytes w = prod_list (shape w) * itemsize (dtype w)"

definition params_nbytes :: "ndarray list \<Rightarrow> nat" where
  "params_nbytes ws = sum_list (map nbytes ws)"

text \<open>
  The values of a metrics map are numeric scalars: a Python int or a Python
  float. A dict is an association list, looked up with \<^const>\<open>map_of\<close>.
\<close>

datatype pyfloat = Finite rat | PosInf | NegInf | NaN

datatype scalar = SInt int | SFloat pyfloat

type_synonym metrics = "(string \<times> scalar) list"

text \<open>\<^verbatim>\<open>d.get(k, default)\<close>\<close>

definition dict_get :: "metrics \<Rightarrow> string \<Rightarrow> scalar \<Rightarrow> scalar" where
  "dict_get d k dflt = (case map_of d k of None \<Rightarrow> dflt | Some v \<Rightarrow> v)"

text \<open>\<^verbatim>\<open>int(v)\<close>: a float is truncated towards zero; nan and the infinities raise.\<close>

fun py_int :: "scalar \<Rightarrow> exn + int" where
  "py_int (SInt i) = Inr i"
| "py_int (SFloat (Finite q)) = Inr (if 0 \<le> q then \<lfloor>q\<rfloor> else \<lceil>q\<rceil>)"
| "py_int (SFloat PosInf) = Inl OverflowError"
| "py_int (SFloat NegInf) = Inl OverflowError"
| "py_int (SFloat NaN) = Inl ValueError"

text \<open>
  What a client returns to the server. \<^verbatim>\<open>FitRes\<close> and \<^verbatim>\<open>EvaluateRes\<close> share
  the example count and the metrics map. The metrics field is \<open>None\<close> when the
  object has no dict under \<^verbatim>\<open>metrics\<close> (the case the server guards with
  \<^verbatim>\<open>hasattr\<close> and \<^verbatim>\<open>isinstance\<close>).
\<close>

record client_res =
  num_examples :: nat
  metrics :: "metrics option"

record fit_res = client_res +
  parameters :: "ndarray list"

record evaluate_res = client_res +
  loss :: rat

type_synonym client_proxy = string

section \<open>String formatting\<close>

text \<open>\<^verbatim>\<open>str(n)\<close> for a natural number, as the f-strings of the source print it.\<close>

definition digit_char :: "nat \<Rightarrow> char" where
  "digit_char n = ''0123456789'' ! n"

function str_nat :: "nat \<Rightarrow> string" where
  "str_nat n = (if n < 10 then [digit_char n] else str_nat (n div 10) @ [digit_char (n mod 10)])"
  by pat_completeness auto
termination
  by (relation "measure id") auto

declare str_nat.simps [simp del]

text \<open>
  \<^verbatim>\<open>f"{x:.Nf}"\<close>: fixed-point notation with \<open>N\<close> digits after the point, the
  value rounded half to even.
\<close>

definition round_half_even :: "rat \<Rightarrow> int" where
  "round_half_even x =
     (let f = \<lfloor>x\<rfloor>; r = x - of_int f
      in if r < 1 / 2 then f else if 1 / 2 < r then f + 1 else if even f then f else f + 1)"

definition zero_pad :: "nat \<Rightarrow> string \<Rightarrow> string" where
  "zero_pad n s = replicate (n - length s) (CHR ''0'') @ s"

definition fmt_fixed :: "nat \<Rightarrow> rat \<Rightarrow> string" where
  "fmt_fixed n x =
     (let s = nat (round_half_even (\<bar>x\<bar> * 10 ^ n))
      in (if x < 0 then ''-'' else '''') @ str_nat (s div 10 ^ n) @
         (if n = 0 then '''' else ''.'' @ zero_pad n (str_nat (s mod 10 ^ n))))"

fun fmt_scalar :: "nat \<Rightarrow> scalar \<Rightarrow> string" where
  "fmt_scalar n (SInt i) = fmt_fixed n (of_int i)"
| "fmt_scalar n (SFloat (Finite q)) = fmt_fixed n q"
| "fmt_scalar n (SFloat PosInf) = ''inf''"
| "fmt_scalar n (SFloat NegInf) = ''-inf''"
| "fmt_scalar n (SFloat NaN) = ''nan''"

text \<open>\<^verbatim>\<open>sep.join(parts)\<close>\<close>

fun join :: "string \<Rightarrow> string list \<Rightarrow> string" where
  "join sep [] = []"
| "join sep [p] = p"
| "join sep (p # q # ps) = p @ sep @ join sep (q # ps)"

section \<open>The server: \<^verbatim>\<open>ServerUI\<close> and \<^verbatim>\<open>RichStrategy\<close>\<close>

text \<open>
  \<^verbatim>\<open>ServerUI.log\<close> adds a row (time, event, details) to the status table and
  sends the same pair to the logger. The table is the state; the time stamp is
  left out.
\<close>

record server_ui =
  rows :: "(string \<times> string) list"

definition ui_log :: "server_ui \<Rightarrow> string \<Rightarrow> string \<Rightarrow> server_ui" where
  "ui_log ui event details = ui\<lparr>rows := rows ui @ [(event, details)]\<rparr>"

definition round_label :: "nat \<Rightarrow> string" where
  "round_label server_round = ''Round '' @ str_nat server_round"

text \<open>
  The byte tally of \<^verbatim>\<open>aggregate_fit\<close>: one step of the loop over the results,
  the loop, and the \<^verbatim>\<open>try\<close>/\<^verbatim>\<open>except\<close> around it, which resets both totals.
\<close>

definition tally_step :: "int \<times> int \<Rightarrow> fit_res \<Rightarrow> exn + int \<times> int" where
  "tally_step t fitres =
     (case metrics fitres of
        None \<Rightarrow> Inr t
      | Some m \<Rightarrow>
          (case py_int (dict_get m ''up_bytes'' (dict_get m ''bytes'' (SInt 0))) of
             Inl e \<Rightarrow> Inl e
           | Inr up \<Rightarrow>
               (case py_int (dict_get m ''down_bytes'' (SInt 0)) of
                  Inl e \<Rightarrow> Inl e
                | Inr down \<Rightarrow> Inr (fst t + up, snd t + down))))"

fun tally_loop :: "int \<times> int \<Rightarrow> (client_proxy \<times> fit_res) list \<Rightarrow> exn + int \<times> int" where
  "tally_loop t [] = Inr t"
| "tally_loop t ((_, fitres) # rest) =
     (case tally_step t fitres of Inl e \<Rightarrow> Inl e | Inr t' \<Rightarrow> tally_loop t' rest)"

definition tally_bytes :: "(client_proxy \<times> fit_res) list \<Rightarrow> int \<times> int" where
  "tally_bytes results =
     (case tally_loop (0, 0) results of Inl _ \<Rightarrow> (0, 0) | Inr t \<Rightarrow> t)"

text \<open>
  The row with the byte totals: the arrows are the UTF-8 bytes of U+2191 and
  U+2193, and a total is printed in MB with two decimals. The quotient is
  taken exactly, as the float division is for a total below 2^53.
\<close>

definition up_arrow :: string where
  "up_arrow = [CHR 0xE2, CHR 0x86, CHR 0x91]"

definition down_arrow :: string where
  "down_arrow = [CHR 0xE2, CHR 0x86, CHR 0x93]"

definition mb :: "int \<Rightarrow> rat" where
  "mb n = of_int n / (1024 * 1024)"

definition byte_details :: "int \<Rightarrow> int \<Rightarrow> string list" where
  "byte_details total_up total_down =
     (if 0 < total_up
      then [''[blue]'' @ up_arrow @ '' updates[/blue] ~[bold]'' @ fmt_fixed 2 (mb total_up) @ '' MB[/bold]'']
      else []) @
     (if 0 < total_down
      then [''[green]'' @ down_arrow @ '' params[/green] ~[bold]'' @ fmt_fixed 2 (mb total_down) @ '' MB[/bold]'']
      else [])"

definition no_results_msg :: string where
  "no_results_msg = ''[red]No results received from clients.[/red]''"

definition aggregating_msg :: "nat \<Rightarrow> string" where
  "aggregating_msg n = ''Aggregating results from '' @ str_nat n @ '' clients...''"

definition failures_msg :: "nat \<Rightarrow> string" where
  "failures_msg n = ''[yellow]Warning: '' @ str_nat n @ '' clients failed.[/yellow]''"

text \<open>
  \<^verbatim>\<open>RichStrategy.aggregate_fit\<close>. The method of the base class
  (\<^verbatim>\<open>super().aggregate_fit\<close>) is the first argument; an exception it raises
  leaves through \<^verbatim>\<open>aggregate_fit\<close>, after the rows logged so far. The failures
  are only counted, so their type is left open. The console spinner shown
  during the call of the base class is not part of the state.
\<close>

type_synonym fit_aggregate = "exn + ndarray list option \<times> metrics"

definition aggregate_fit ::
  "(nat \<Rightarrow> (client_proxy \<times> fit_res) list \<Rightarrow> 'f list \<Rightarrow> fit_aggregate) \<Rightarrow>
   server_ui \<Rightarrow> nat \<Rightarrow> (client_proxy \<times> fit_res) list \<Rightarrow> 'f list \<Rightarrow> fit_aggregate \<times> server_ui" where
  "aggregate_fit super_aggregate_fit ui server_round results failures =
     (if results = [] then
        (Inr (None, []), ui_log ui (round_label server_round) no_results_msg)
      else
        let ui1 = ui_log ui (round_label server_round) (aggregating_msg (length results));
            (total_up, total_down) = tally_bytes results
        in case super_aggregate_fit server_round results failures of
             Inl e \<Rightarrow> (Inl e, ui1)
           | Inr aggregated \<Rightarrow>
               let ui2 = (if 0 < total_up \<or> 0 < total_down
                          then ui_log ui1 (round_label server_round)
                                 (join '' | '' (byte_details total_up total_down))
                          else ui1);
                   ui3 = (if failures \<noteq> []
                          then ui_log ui2 (round_label server_round) (failures_msg (length failures))
                          else ui2)
               in (Inr aggregated, ui3))"

definition no_eval_results_msg :: string where
  "no_eval_results_msg = ''[red]No evaluation results.[/red]''"

definition accuracy_msg :: "scalar \<Rightarrow> string" where
  "accuracy_msg accuracy =
     ''AGGREGATED ACCURACY: [bold cyan]'' @ fmt_scalar 4 accuracy @ ''[/bold cyan]''"

definition no_accuracy_msg :: string where
  "no_accuracy_msg = ''[yellow]No accuracy metrics available.[/yellow]''"

text \<open>
  \<^verbatim>\<open>RichStrategy.aggregate_evaluate\<close>, with \<^verbatim>\<open>super().aggregate_evaluate\<close> as
  the first argument. The test \<^verbatim>\<open>metrics and "accuracy" in metrics\<close> is the
  lookup of the key: a dict that holds the key is not empty.
\<close>

type_synonym evaluate_aggregate = "exn + rat option \<times> metrics"

definition aggregate_evaluate ::
  "(nat \<Rightarrow> (client_proxy \<times> evaluate_res) list \<Rightarrow> 'f list \<Rightarrow> evaluate_aggregate) \<Rightarrow>
   server_ui \<Rightarrow> nat \<Rightarrow> (client_proxy \<times> evaluate_res) list \<Rightarrow> 'f list \<Rightarrow>
   evaluate_aggregate \<times> server_ui" where
  "aggregate_evaluate super_aggregate_evaluate ui server_round results failures =
     (if results = [] then
        (Inr (None, []), ui_log ui (round_label server_round) no_eval_results_msg)
      else
        case super_aggregate_evaluate server_round results failures of
          Inl e \<Rightarrow> (Inl e, ui)
        | Inr (agg_loss, agg_metrics) \<Rightarrow>
            (case map_of agg_metrics ''accuracy'' of
               Some accuracy \<Rightarrow>
                 (Inr (agg_loss, [(''accuracy'', accuracy)]),
                  ui_log ui (round_label server_round) (accuracy_msg accuracy))
             | None \<Rightarrow>
                 (Inr (agg_loss, agg_metrics),
                  ui_log ui (round_label server_round) no_accuracy_msg)))"

section \<open>The base strategy\<close>

text \<open>
  Arithmetic on arrays, element by element: a scalar times an array, the sum
  of two arrays, and the sum of two parameter lists array by array.
\<close>

definition scale :: "rat \<Rightarrow> ndarray \<Rightarrow> ndarray" where
  "scale k w = w\<lparr>data := map (\<lambda>x. k * x) (data w)\<rparr>"

definition add_arrays :: "ndarray \<Rightarrow> ndarray \<Rightarrow> ndarray" where
  "add_arrays v w = v\<lparr>data := map2 (+) (data v) (data w)\<rparr>"

definition add_params :: "ndarray list \<Rightarrow> ndarray list \<Rightarrow> ndarray list" where
  "add_params p q = map2 add_arrays p q"

text \<open>
  Modelled from the spec: the federated-averaging rule of
  \<^verbatim>\<open>FedAvg.aggregate_fit\<close>, the method of the framework's strategy class that
  \<^verbatim>\<open>RichStrategy.aggregate_fit\<close> reaches through \<^verbatim>\<open>super()\<close>; the class is not
  in the repository. Spec 4.2: it "computes the weighted average of all
  ParameterSets, weight = each client's example_count normalized by the sum
  of all example_counts in this round", that is
  \<^verbatim>\<open>new_weight[i] = sum_c (example_count[c] / sum example_count) * weight[i][c]\<close>.
  Every client's ParameterSet is scaled by the client's weight, and the scaled
  ParameterSets are added up.
\<close>

definition total_examples :: "(client_proxy \<times> fit_res) list \<Rightarrow> nat" where
  "total_examples results = sum_list (map (\<lambda>(_, fitres). num_examples fitres) results)"

definition client_weight :: "(client_proxy \<times> fit_res) list \<Rightarrow> fit_res \<Rightarrow> rat" where
  "client_weight results fitres =
     of_nat (num_examples fitres) / of_nat (total_examples results)"

definition weighted_params :: "(client_proxy \<times> fit_res) list \<Rightarrow> fit_res \<Rightarrow> ndarray list" where
  "weighted_params results fitres =
     map (scale (client_weight results fitres)) (parameters fitres)"

definition weighted_average :: "(client_proxy \<times> fit_res) list \<Rightarrow> ndarray list" where
  "weighted_average results =
     (case map (\<lambda>(_, fitres). weighted_params results fitres) results of
        [] \<Rightarrow> []
      | p # ps \<Rightarrow> foldl add_params p ps)"

text \<open>
  Modelled from the spec: \<^verbatim>\<open>FedAvg.aggregate_fit\<close> itself. Spec 4.2: if the
  results are empty it "returns no update and an empty metrics map", otherwise
  the weighted average; a non-empty failures list "does not block aggregation
  of the successful subset". The spec names no aggregated fit metric, so the
  metrics map of an update is empty.
\<close>

definition FedAvg_aggregate_fit ::
  "nat \<Rightarrow> (client_proxy \<times> fit_res) list \<Rightarrow> 'f list \<Rightarrow> fit_aggregate" where
  "FedAvg_aggregate_fit server_round results failures =
     (if results = [] then Inr (None, [])
      else Inr (Some (weighted_average results), []))"

text \<open>
  Modelled from the spec: \<^verbatim>\<open>FedAvg.aggregate_evaluate\<close>, reached through
  \<^verbatim>\<open>super()\<close> and not in the repository. Spec 4.2: "weighted-average loss by
  example_count using the same rule as fit"; the metrics are "whatever metrics
  aggregation produced". Metrics aggregation is a setting of the base class,
  given to its constructor: \<^verbatim>\<open>RichStrategy.__init__\<close> hands its keyword
  arguments on, and the main block of \<^verbatim>\<open>server.py\<close> passes none for it. That
  case is \<open>None\<close> here, and nothing is aggregated then.
\<close>

definition weighted_loss :: "(client_proxy \<times> evaluate_res) list \<Rightarrow> rat" where
  "weighted_loss results =
     (\<Sum>(_, res)\<leftarrow>results.
        of_nat (num_examples res) /
        of_nat (sum_list (map (\<lambda>(_, res'). num_examples res') results)) * loss res)"

definition FedAvg_aggregate_evaluate ::
  "((nat \<times> metrics option) list \<Rightarrow> metrics) option \<Rightarrow>
   nat \<Rightarrow> (client_proxy \<times> evaluate_res) list \<Rightarrow> 'f list \<Rightarrow> evaluate_aggregate" where
  "FedAvg_aggregate_evaluate metrics_aggregation server_round results failures =
     (if results = [] then Inr (None, [])
      else Inr (Some (weighted_loss results),
                case metrics_aggregation of
                  None \<Rightarrow> []
                | Some f \<Rightarrow> f (map (\<lambda>(_, res). (num_examples res, metrics res)) results)))"

section \<open>The client: \<^verbatim>\<open>FlowerClient\<close>\<close>

text \<open>
  An element of the parameter list handed to the client is a numpy array, or
  an array-like that has a shape and values but no \<^verbatim>\<open>nbytes\<close> (a tensor of
  the framework), or an object with neither. The last two are the cases the
  \<^verbatim>\<open>try\<close> around the byte count is written for.
\<close>

datatype pyobj = Array ndarray | Tensor ndarray | Opaque

fun nbytes_of :: "pyobj \<Rightarrow> exn + nat" where
  "nbytes_of (Array w) = Inr (nbytes w)"
| "nbytes_of (Tensor w) = Inl AttributeError"
| "nbytes_of Opaque = Inl AttributeError"

text \<open>\<^verbatim>\<open>sum(w.nbytes for w in ws)\<close>: the first element that raises ends the sum.\<close>

fun sum_nbytes :: "nat \<Rightarrow> pyobj list \<Rightarrow> exn + nat" where
  "sum_nbytes acc [] = Inr acc"
| "sum_nbytes acc (w # ws) =
     (case nbytes_of w of Inl e \<Rightarrow> Inl e | Inr n \<Rightarrow> sum_nbytes (acc + n) ws)"

text \<open>The sum inside its \<^verbatim>\<open>try\<close>/\<^verbatim>\<open>except Exception\<close>, which gives 0.\<close>

definition count_bytes :: "pyobj list \<Rightarrow> nat" where
  "count_bytes ws = (case sum_nbytes 0 ws of Inl _ \<Rightarrow> 0 | Inr n \<Rightarrow> n)"

text \<open>
  The Keras model of the client: its weights, and the rest of its state
  (optimizer, compiled losses), which the client never reads.

  \<^verbatim>\<open>set_weights\<close> raises ValueError when the list has not as many elements as
  the model has weights. Otherwise it goes through weights and values in
  order: a value without a shape raises AttributeError, a value of another
  shape raises ValueError, and any other value is assigned to its weight. The
  weights assigned before an exception stay assigned. The cast of a value to
  the element type of its weight is not modelled: a value is stored as it
  comes. \<^verbatim>\<open>get_weights\<close> reads the weights as numpy arrays.
\<close>

record 'o keras_model =
  weights :: "ndarray list"
  internals :: 'o

fun value_of :: "pyobj \<Rightarrow> ndarray option" where
  "value_of (Array w) = Some w"
| "value_of (Tensor w) = Some w"
| "value_of Opaque = None"

fun assign_all :: "ndarray list \<Rightarrow> pyobj list \<Rightarrow> exn option \<times> ndarray list" where
  "assign_all (v # vs) (p # ps) =
     (case value_of p of
        None \<Rightarrow> (Some AttributeError, v # vs)
      | Some w \<Rightarrow>
          if shape v \<noteq> shape w then (Some ValueError, v # vs)
          else (case assign_all vs ps of (r, vs') \<Rightarrow> (r, w # vs')))"
| "assign_all vs ps = (None, vs)"

definition set_weights :: "'o keras_model \<Rightarrow> pyobj list \<Rightarrow> exn option \<times> 'o keras_model" where
  "set_weights m ps =
     (if length (weights m) \<noteq> length ps then (Some ValueError, m)
      else case assign_all (weights m) ps of (r, ws) \<Rightarrow> (r, m\<lparr>weights := ws\<rparr>))"

definition get_weights :: "'o keras_model \<Rightarrow> ndarray list" where
  "get_weights m = weights m"

text \<open>
  \<^verbatim>\<open>model.fit(x, y, epochs, batch_size, validation_split)\<close> of Keras. The last
  \<^verbatim>\<open>validation_split\<close> of the examples are set apart for validation and not
  trained on: the training part is the first
  \<^verbatim>\<open>floor(len(x) * (1 - validation_split))\<close> examples, and a split that leaves
  either part empty raises ValueError, as examples and labels of different
  numbers do. Every epoch is one pass over the training part in batches; the
  pass itself is the argument \<open>run_epoch\<close>, which takes the model, the examples
  and labels it trains on and the batch size. Validation changes no weight.
\<close>

type_synonym ('x, 'y, 'o) epoch =
  "'o keras_model \<Rightarrow> 'x list \<Rightarrow> 'y list \<Rightarrow> nat \<Rightarrow> 'o keras_model"

definition split_at :: "nat \<Rightarrow> rat \<Rightarrow> nat" where
  "split_at n validation_split = nat \<lfloor>of_nat n * (1 - validation_split)\<rfloor>"

definition keras_fit ::
  "('x, 'y, 'o) epoch \<Rightarrow> 'o keras_model \<Rightarrow> 'x list \<Rightarrow> 'y list \<Rightarrow> nat \<Rightarrow> nat \<Rightarrow> rat \<Rightarrow>
   exn + 'o keras_model" where
  "keras_fit run_epoch m x y epochs batch_size validation_split =
     (let k = split_at (length x) validation_split
      in if length y \<noteq> length x \<or> k = 0 \<or> k = length x then Inl ValueError
         else Inr (((\<lambda>m'. run_epoch m' (take k x) (take k y) batch_size) ^^ epochs) m))"

text \<open>
  The module-level state of \<^verbatim>\<open>client.py\<close>: the model and the MNIST arrays.
  Scoring is the call \<^verbatim>\<open>model.evaluate\<close> of Keras, an argument of
  \<^verbatim>\<open>evaluate\<close> here, which gives the loss and the accuracy.
\<close>

record ('x, 'y, 'o) client =
  client_id :: string
  model :: "'o keras_model"
  x_train :: "'x list"
  y_train :: "'y list"
  x_test :: "'x list"
  y_test :: "'y list"

type_synonym ('x, 'y, 'o) scorer =
  "'o keras_model \<Rightarrow> 'x list \<Rightarrow> 'y list \<Rightarrow> rat \<times> rat"

text \<open>
  \<^verbatim>\<open>FlowerClient.fit\<close>: the result, or the exception of \<^verbatim>\<open>set_weights\<close> or of
  \<^verbatim>\<open>model.fit\<close>, and the state of the module afterwards. The console messages
  of the client are left out.
\<close>

definition fit ::
  "('x, 'y, 'o) epoch \<Rightarrow> ('x, 'y, 'o) client \<Rightarrow> pyobj list \<Rightarrow> metrics \<Rightarrow>
   (exn + ndarray list \<times> nat \<times> metrics) \<times> ('x, 'y, 'o) client" where
  "fit run_epoch st params config =
     (let down_bytes = count_bytes params
      in case set_weights (model st) params of
           (Some e, m') \<Rightarrow> (Inl e, st\<lparr>model := m'\<rparr>)
         | (None, m1) \<Rightarrow>
             (case keras_fit run_epoch m1 (x_train st) (y_train st) 1 32 (1 / 10) of
                Inl e \<Rightarrow> (Inl e, st\<lparr>model := m1\<rparr>)
              | Inr m2 \<Rightarrow>
                  let new_weights = get_weights m2;
                      up_bytes = count_bytes (map Array new_weights);
                      ms = [(''up_bytes'', SInt (int up_bytes)),
                            (''down_bytes'', SInt (int down_bytes))]
                  in (Inr (new_weights, length (x_train st), ms), st\<lparr>model := m2\<rparr>)))"

text \<open>\<^verbatim>\<open>FlowerClient.evaluate\<close>\<close>

definition evaluate ::
  "('x, 'y, 'o) scorer \<Rightarrow> ('x, 'y, 'o) client \<Rightarrow> pyobj list \<Rightarrow> metrics \<Rightarrow>
   (exn + rat \<times> nat \<times> metrics) \<times> ('x, 'y, 'o) client" where
  "evaluate model_evaluate st params config =
     (let down_bytes = count_bytes params
      in case set_weights (model st) params of
           (Some e, m') \<Rightarrow> (Inl e, st\<lparr>model := m'\<rparr>)
         | (None, m1) \<Rightarrow>
             let (test_loss, accuracy) = model_evaluate m1 (x_test st) (y_test st)
             in (Inr (test_loss, length (x_test st),
                      [(''accuracy'', SFloat (Finite accuracy)), (''down_bytes'', SInt (int down_bytes))]),
                 st\<lparr>model := m1\<rparr>))"

section \<open>Well-formed parameter sets and example rounds\<close>

text \<open>
  The invariant of a ParameterSet (spec 3): the arrays have the element types
  and shapes of the model architecture, and every array holds as many elements
  as its shape says.
\<close>

definition conforms :: "(dtype \<times> nat list) list \<Rightarrow> ndarray list \<Rightarrow> bool" where
  "conforms arch p \<longleftrightarrow>
     map (\<lambda>w. (dtype w, shape w)) p = arch \<and>
     list_all (\<lambda>w. length (data w) = prod_list (shape w)) p"

text \<open>
  A round of three clients with the distinct example counts 10, 30 and 60 over
  an architecture of two arrays, an evaluation round of two clients, and an
  empty status table.
\<close>

definition example_arch :: "(dtype \<times> nat list) list" where
  "example_arch = [(Float32, [2]), (Float32, [1])]"

definition example_update :: "nat \<Rightarrow> rat list \<Rightarrow> rat list \<Rightarrow> fit_res" where
  "example_update n xs ys =
     \<lparr>num_examples = n,
      metrics = Some [(''up_bytes'', SInt 12), (''down_bytes'', SInt 12)],
      parameters = [\<lparr>dtype = Float32, shape = [2], data = xs\<rparr>,
                    \<lparr>dtype = Float32, shape = [1], data = ys\<rparr>]\<rparr>"

definition example_fit_results :: "(client_proxy \<times> fit_res) list" where
  "example_fit_results =
     [(''a'', example_update 10 [1, 2] [10]),
      (''b'', example_update 30 [3, 4] [20]),
      (''c'', example_update 60 [5, 10] [40])]"

definition example_score :: "nat \<Rightarrow> rat \<Rightarrow> rat \<Rightarrow> evaluate_res" where
  "example_score n l a =
     \<lparr>num_examples = n,
      metrics = Some [(''accuracy'', SFloat (Finite a)), (''down_bytes'', SInt 12)],
      loss = l\<rparr>"

definition example_evaluate_results :: "(client_proxy \<times> evaluate_res) list" where
  "example_evaluate_results =
     [(''a'', example_score 10 (1 / 2) (9 / 10)),
      (''b'', example_score 30 (1 / 4) (1 / 2))]"

definition example_ui :: server_ui where
  "example_ui = \<lparr>rows = []\<rparr>"

text \<open>
  Modelled from the spec: a metrics aggregation as spec 4.2 words it, "if an
  accuracy key is present in per-client metrics, compute its weighted
  average": when every client reports a finite number under the key, the map
  with the example-count-weighted mean under that key, and the empty map
  otherwise. It is one possible setting of the base class.
\<close>

fun scalar_value :: "scalar \<Rightarrow> rat option" where
  "scalar_value (SInt i) = Some (of_int i)"
| "scalar_value (SFloat (Finite q)) = Some q"
| "scalar_value (SFloat _) = None"

definition weighted_metric :: "string \<Rightarrow> (nat \<times> metrics option) list \<Rightarrow> metrics" where
  "weighted_metric k xs =
     (case those (map (\<lambda>(n, m). case m of
                                    None \<Rightarrow> None
                                  | Some d \<Rightarrow> (case map_of d k of
                                                None \<Rightarrow> None
                                              | Some v \<Rightarrow> map_option (Pair n) (scalar_value v))) xs) of
        None \<Rightarrow> []
      | Some nqs \<Rightarrow>
          [(k, SFloat (Finite (sum_list (map (\<lambda>(n, q). of_nat n * q) nqs) /
                               of_nat (sum_list (map fst nqs)))))])"

text \<open>
  What one client reports under a key, and a metrics aggregation that averages
  both keys of the evaluation metrics.
\<close>

definition client_metric :: "string \<Rightarrow> evaluate_res \<Rightarrow> scalar option" where
  "client_metric k res = (case metrics res of None \<Rightarrow> None | Some d \<Rightarrow> map_of d k)"

definition example_metrics_aggregation :: "(nat \<times> metrics option) list \<Rightarrow> metrics" where
  "example_metrics_aggregation xs = weighted_metric ''accuracy'' xs @ weighted_metric ''down_bytes'' xs"

text \<open>
  A client whose model has two float32 arrays of 10 and 20 elements and whose
  partition has ten training and two test examples, the parameters a server
  sends it, a stand-in for a training pass (it halves the weights and adds
  the number of examples it trains on to a counter kept in the model) and a
  stand-in for Keras scoring.
\<close>

definition example_model :: "nat keras_model" where
  "example_model =
     \<lparr>weights = [\<lparr>dtype = Float32, shape = [10], data = replicate 10 0\<rparr>,
                 \<lparr>dtype = Float32, shape = [20], data = replicate 20 0\<rparr>],
      internals = 0\<rparr>"

definition example_client :: "(nat, nat, nat) client" where
  "example_client =
     \<lparr>client_id = ''0'', model = example_model,
      x_train = [1, 2, 3, 4, 5, 6, 7, 8, 9, 10], y_train = [0, 1, 0, 1, 0, 1, 0, 1, 0, 1],
      x_test = [11, 12], y_test = [1, 0]\<rparr>"

definition example_parameters :: "ndarray list" where
  "example_parameters =
     [\<lparr>dtype = Float32, shape = [10], data = replicate 10 1\<rparr>,
      \<lparr>dtype = Float32, shape = [20], data = replicate 20 2\<rparr>]"

definition example_epoch :: "(nat, nat, nat) epoch" where
  "example_epoch m xs ys batch_size =
     m\<lparr>weights := map (scale (1 / 2)) (weights m), internals := internals m + length xs\<rparr>"

definition example_scorer :: "(nat, nat, nat) scorer" where
  "example_scorer m xs ys = (1 / 2, 3 / 4)"

text \<open>A fit result whose upload size is not a number.\<close>

definition example_bad_update :: fit_res where
  "example_bad_update =
     \<lparr>num_examples = 20,
      metrics = Some [(''up_bytes'', SFloat NaN), (''down_bytes'', SInt 12)],
      parameters = [\<lparr>dtype = Float32, shape = [2], data = [7, 8]\<rparr>,
                    \<lparr>dtype = Float32, shape = [1], data = [9]\<rparr>]\<rparr>"

section \<open>Properties of the server\<close>

subsection \<open>Rows of the status table\<close>

lemma aggregating_msg_neq: "aggregating_msg n \<noteq> no_results_msg"
  by (simp add: aggregating_msg_def no_results_msg_def)

lemma failures_msg_neq: "failures_msg n \<noteq> no_results_msg"
  by (simp add: failures_msg_def no_results_msg_def)

lemma byte_line_neq:
  "0 < up \<or> 0 < down \<Longrightarrow> join '' | '' (byte_details up down) \<noteq> no_results_msg"
  by (auto simp add: byte_details_def no_results_msg_def)

lemma accuracy_msg_neq: "accuracy_msg a \<noteq> no_eval_results_msg"
  by (simp add: accuracy_msg_def no_eval_results_msg_def)

lemma no_accuracy_msg_neq: "no_accuracy_msg \<noteq> no_eval_results_msg"
  by (simp add: no_accuracy_msg_def no_eval_results_msg_def)

lemma rows_ui_log: "rows (ui_log ui e d) = rows ui @ [(e, d)]"
  by (simp add: ui_log_def)

lemma aggregate_fit_empty:
  "aggregate_fit sf ui r [] failures = (Inr (None, []), ui_log ui (round_label r) no_results_msg)"
  by (simp add: aggregate_fit_def)

lemma aggregate_evaluate_empty:
  "aggregate_evaluate se ui r [] failures = (Inr (None, []), ui_log ui (round_label r) no_eval_results_msg)"
  by (simp add: aggregate_evaluate_def)

lemma aggregate_fit_rows:
  assumes "results \<noteq> []"
  shows "\<exists>es. rows (snd (aggregate_fit sf ui r results failures)) = rows ui @ es \<and>
              (\<forall>e\<in>set es. snd e \<noteq> no_results_msg)"
proof (cases "sf r results failures")
  case (Inl e)
  with assms show ?thesis
    by (simp add: aggregate_fit_def rows_ui_log aggregating_msg_neq split: prod.split)
next
  case (Inr a)
  obtain up down where t: "tally_bytes results = (up, down)" by (cases "tally_bytes results")
  show ?thesis using assms Inr t
    by (auto simp add: aggregate_fit_def Let_def rows_ui_log aggregating_msg_neq
        failures_msg_neq byte_line_neq)
qed

lemma aggregate_evaluate_rows:
  assumes "results \<noteq> []"
  shows "\<exists>es. rows (snd (aggregate_evaluate se ui r results failures)) = rows ui @ es \<and>
              (\<forall>e\<in>set es. snd e \<noteq> no_eval_results_msg)"
  using assms
  by (auto simp add: aggregate_evaluate_def rows_ui_log accuracy_msg_neq no_accuracy_msg_neq
      split: sum.split option.split prod.split)


subsection \<open>The weighted average\<close>

lemma fst_aggregate_fit:
  "results \<noteq> [] \<Longrightarrow> fst (aggregate_fit sf ui r results failures) = sf r results failures"
  by (cases "sf r results failures"; cases "tally_bytes results")
     (simp_all add: aggregate_fit_def Let_def)

lemma conforms_length: "conforms arch p \<Longrightarrow> length p = length arch"
  by (auto simp add: conforms_def)

lemma conforms_nth:
  assumes "conforms arch p" and "i < length arch"
  shows "dtype (p ! i) = fst (arch ! i)" and "shape (p ! i) = snd (arch ! i)"
    and "length (data (p ! i)) = prod_list (snd (arch ! i))"
proof -
  have len: "i < length p" using assms by (simp add: conforms_length)
  have "map (\<lambda>w. (dtype w, shape w)) p ! i = arch ! i"
    using assms by (simp add: conforms_def)
  then have e: "(dtype (p ! i), shape (p ! i)) = arch ! i" using len by simp
  show "dtype (p ! i) = fst (arch ! i)" using e by (metis fst_conv)
  show s: "shape (p ! i) = snd (arch ! i)" using e by (metis snd_conv)
  have "length (data (p ! i)) = prod_list (shape (p ! i))"
    using assms(1) len by (simp add: conforms_def list_all_length)
  then show "length (data (p ! i)) = prod_list (snd (arch ! i))" using s by simp
qed

lemma conformsI:
  assumes "length p = length arch"
    and "\<And>i. i < length arch \<Longrightarrow> dtype (p ! i) = fst (arch ! i)"
    and "\<And>i. i < length arch \<Longrightarrow> shape (p ! i) = snd (arch ! i)"
    and "\<And>i. i < length arch \<Longrightarrow> length (data (p ! i)) = prod_list (snd (arch ! i))"
  shows "conforms arch p"
proof -
  have "map (\<lambda>w. (dtype w, shape w)) p = arch"
    using assms by (intro nth_equalityI) (simp_all add: prod_eq_iff)
  moreover have "list_all (\<lambda>w. length (data w) = prod_list (shape w)) p"
    using assms by (simp add: list_all_length)
  ultimately show ?thesis by (simp add: conforms_def)
qed

lemma conforms_scale:
  assumes "conforms arch p"
  shows "conforms arch (map (scale k) p)"
  using assms by (simp add: conforms_def scale_def list_all_iff comp_def)

lemma scale_nth:
  assumes "conforms arch p" and "i < length arch" and "j < prod_list (snd (arch ! i))"
  shows "data (map (scale k) p ! i) ! j = k * data (p ! i) ! j"
  using assms conforms_length[OF assms(1)] conforms_nth(3)[OF assms(1,2)]
  by (simp add: scale_def)

lemma conforms_add_params:
  assumes "conforms arch p" and "conforms arch q"
  shows "conforms arch (add_params p q)"
proof (rule conformsI)
  show "length (add_params p q) = length arch"
    using assms by (simp add: add_params_def conforms_length)
next
  fix i assume i: "i < length arch"
  then have n: "add_params p q ! i = add_arrays (p ! i) (q ! i)"
    using assms by (simp add: add_params_def conforms_length)
  show "dtype (add_params p q ! i) = fst (arch ! i)"
    using n conforms_nth(1)[OF assms(1) i] by (simp add: add_arrays_def)
  show "shape (add_params p q ! i) = snd (arch ! i)"
    using n conforms_nth(2)[OF assms(1) i] by (simp add: add_arrays_def)
  show "length (data (add_params p q ! i)) = prod_list (snd (arch ! i))"
    using n conforms_nth(3)[OF assms(1) i] conforms_nth(3)[OF assms(2) i]
    by (simp add: add_arrays_def)
qed

lemma add_params_nth:
  assumes "conforms arch p" and "conforms arch q"
    and "i < length arch" and "j < prod_list (snd (arch ! i))"
  shows "data (add_params p q ! i) ! j = data (p ! i) ! j + data (q ! i) ! j"
proof -
  have "add_params p q ! i = add_arrays (p ! i) (q ! i)"
    using assms by (simp add: add_params_def conforms_length)
  then show ?thesis
    using assms(4) conforms_nth(3)[OF assms(1,3)] conforms_nth(3)[OF assms(2,3)]
    by (simp add: add_arrays_def)
qed

lemma foldl_add_params:
  assumes "conforms arch p" and "\<forall>q\<in>set qs. conforms arch q"
  shows "conforms arch (foldl add_params p qs) \<and>
         (\<forall>i<length arch. \<forall>j<prod_list (snd (arch ! i)).
            data (foldl add_params p qs ! i) ! j =
              data (p ! i) ! j + (\<Sum>q\<leftarrow>qs. data (q ! i) ! j))"
  using assms
proof (induction qs arbitrary: p)
  case Nil
  then show ?case by simp
next
  case (Cons q qs)
  have c: "conforms arch (add_params p q)"
    using Cons.prems by (simp add: conforms_add_params)
  have ih: "conforms arch (foldl add_params (add_params p q) qs) \<and>
         (\<forall>i<length arch. \<forall>j<prod_list (snd (arch ! i)).
            data (foldl add_params (add_params p q) qs ! i) ! j =
              data (add_params p q ! i) ! j + (\<Sum>q\<leftarrow>qs. data (q ! i) ! j))"
    using Cons.IH[OF c] Cons.prems by simp
  show ?case
    using ih Cons.prems by (simp add: add_params_nth)
qed

lemma weighted_average_pointwise:
  assumes ne: "results \<noteq> []"
    and conf: "\<forall>x\<in>set results. conforms arch (parameters (snd x))"
  shows "conforms arch (weighted_average results) \<and>
         (\<forall>i<length arch. \<forall>j<prod_list (snd (arch ! i)).
            data (weighted_average results ! i) ! j =
              (\<Sum>x\<leftarrow>results. client_weight results (snd x) * data (parameters (snd x) ! i) ! j))"
proof -
  define wp where "wp = (\<lambda>x::client_proxy \<times> fit_res. weighted_params results (snd x))"
  have wpc: "conforms arch (wp x)" if "x \<in> set results" for x
    using conf that by (simp add: wp_def weighted_params_def conforms_scale)
  have wpn: "data (wp x ! i) ! j = client_weight results (snd x) * data (parameters (snd x) ! i) ! j"
    if "x \<in> set results" "i < length arch" "j < prod_list (snd (arch ! i))" for x i j
  proof -
    have "conforms arch (parameters (snd x))" using conf that(1) by simp
    from scale_nth[OF this that(2,3)] show ?thesis
      by (simp add: wp_def weighted_params_def)
  qed
  obtain x xs where xs: "results = x # xs" using ne by (cases results) auto
  have m: "map (\<lambda>(_, fitres). weighted_params results fitres) results = map wp results"
    by (simp add: wp_def case_prod_unfold)
  have wa: "weighted_average results = foldl add_params (wp x) (map wp xs)"
    unfolding weighted_average_def m by (simp add: xs)
  have f: "conforms arch (foldl add_params (wp x) (map wp xs)) \<and>
         (\<forall>i<length arch. \<forall>j<prod_list (snd (arch ! i)).
            data (foldl add_params (wp x) (map wp xs) ! i) ! j =
              data (wp x ! i) ! j + (\<Sum>q\<leftarrow>map wp xs. data (q ! i) ! j))"
    by (rule foldl_add_params) (use wpc xs in auto)
  have s: "data (wp x ! i) ! j + (\<Sum>q\<leftarrow>map wp xs. data (q ! i) ! j) =
        (\<Sum>x\<leftarrow>results. client_weight results (snd x) * data (parameters (snd x) ! i) ! j)"
    if "i < length arch" "j < prod_list (snd (arch ! i))" for i j
  proof -
    have "(\<Sum>q\<leftarrow>map wp results. data (q ! i) ! j) =
          (\<Sum>x\<leftarrow>results. client_weight results (snd x) * data (parameters (snd x) ! i) ! j)"
      unfolding map_map comp_def
      by (rule arg_cong[where f = sum_list], rule map_cong) (use wpn that in auto)
    then show ?thesis by (simp add: xs)
  qed
  show ?thesis using f s by (simp add: wa)
qed

lemma sum_list_div:
  "(\<Sum>x\<leftarrow>xs. f x / c) = (\<Sum>x\<leftarrow>xs. f x) / (c::rat)"
  by (induction xs) (simp_all add: add_divide_distrib)

lemma of_nat_sum_list_map:
  "(\<Sum>x\<leftarrow>xs. (of_nat (f x) :: rat)) = of_nat (\<Sum>x\<leftarrow>xs. f x)"
  by (induction xs) simp_all

lemma client_weights_sum:
  assumes "results \<noteq> []" and "\<forall>x\<in>set results. 0 < num_examples (snd x)"
  shows "(\<Sum>x\<leftarrow>results. client_weight results (snd x)) = 1"
proof -
  have t: "total_examples results = (\<Sum>x\<leftarrow>results. num_examples (snd x))"
    by (simp add: total_examples_def case_prod_unfold)
  obtain x xs where "results = x # xs" using assms(1) by (cases results) auto
  then have pos: "0 < total_examples results"
    using assms(2) unfolding t by simp
  have "(\<Sum>x\<leftarrow>results. client_weight results (snd x)) =
        (\<Sum>x\<leftarrow>results. of_nat (num_examples (snd x))) / of_nat (total_examples results)"
    unfolding client_weight_def by (rule sum_list_div)
  also have "(\<Sum>x\<leftarrow>results. (of_nat (num_examples (snd x)) :: rat)) = of_nat (total_examples results)"
    unfolding t by (rule of_nat_sum_list_map)
  finally show ?thesis using pos by simp
qed


subsection \<open>Claims about the server\<close>

text \<open>
  C3: on an empty results list \<^verbatim>\<open>aggregate_fit\<close> returns no update and an empty
  metrics map, and \<^verbatim>\<open>aggregate_evaluate\<close> returns no loss and an empty metrics
  map, whatever the base class and the failures are; neither raises. Each logs
  one row, and its message is one that no round with results logs, so the
  empty round can be told from a round with partial failures.
\<close>

theorem empty_round_sentinels:
  "fst (aggregate_fit sf ui r [] failures) = Inr (None, []) \<and>
   rows (snd (aggregate_fit sf ui r [] failures)) = rows ui @ [(round_label r, no_results_msg)] \<and>
   fst (aggregate_evaluate se ui r [] efailures) = Inr (None, []) \<and>
   rows (snd (aggregate_evaluate se ui r [] efailures)) =
     rows ui @ [(round_label r, no_eval_results_msg)] \<and>
   (results \<noteq> [] \<longrightarrow>
      (\<exists>es. rows (snd (aggregate_fit sf ui r results failures)) = rows ui @ es \<and>
            (\<forall>e\<in>set es. snd e \<noteq> no_results_msg))) \<and>
   (eresults \<noteq> [] \<longrightarrow>
      (\<exists>es. rows (snd (aggregate_evaluate se ui r eresults efailures)) = rows ui @ es \<and>
            (\<forall>e\<in>set es. snd e \<noteq> no_eval_results_msg)))"
  using aggregate_fit_rows[of results sf ui r failures]
    aggregate_evaluate_rows[of eresults se ui r efailures]
  by (simp add: aggregate_fit_empty aggregate_evaluate_empty rows_ui_log)

theorem empty_round_sentinels_witness:
  "example_fit_results \<noteq> [] \<and> example_evaluate_results \<noteq> [] \<and>
   fst (aggregate_fit FedAvg_aggregate_fit example_ui 1 [] [()]) = Inr (None, []) \<and>
   fst (aggregate_evaluate (FedAvg_aggregate_evaluate None) example_ui 1 [] [()]) = Inr (None, []) \<and>
   (\<exists>es. rows (snd (aggregate_fit FedAvg_aggregate_fit example_ui 1 example_fit_results [()])) =
           rows example_ui @ es \<and> (\<forall>e\<in>set es. snd e \<noteq> no_results_msg)) \<and>
   (\<exists>es. rows (snd (aggregate_evaluate (FedAvg_aggregate_evaluate None) example_ui 1
                     example_evaluate_results [()])) =
           rows example_ui @ es \<and> (\<forall>e\<in>set es. snd e \<noteq> no_eval_results_msg))"
proof -
  have h1: "example_fit_results \<noteq> []" by (simp add: example_fit_results_def)
  have h2: "example_evaluate_results \<noteq> []" by (simp add: example_evaluate_results_def)
  show ?thesis
    using h1 h2
      empty_round_sentinels[of FedAvg_aggregate_fit example_ui 1 "[()]"
        "FedAvg_aggregate_evaluate None" "[()]" example_fit_results example_evaluate_results]
    by simp
qed

text \<open>
  C2, as amended: for a non-empty results list on which the base class
  returns a loss and a metrics map, the accuracy is surfaced exactly when the
  aggregated metrics map holds the key \<^verbatim>\<open>accuracy\<close>: the value found there is
  logged and returned as the round's accuracy. When the aggregated map lacks
  the key, it is returned as it is and the log says that accuracy is
  unavailable.
\<close>

theorem aggregate_evaluate_accuracy_gate:
  assumes "results \<noteq> []" and "se r results failures = Inr (l, m)"
  shows "(\<forall>acc. map_of m ''accuracy'' = Some acc \<longrightarrow>
            aggregate_evaluate se ui r results failures =
              (Inr (l, [(''accuracy'', acc)]), ui_log ui (round_label r) (accuracy_msg acc))) \<and>
         (map_of m ''accuracy'' = None \<longrightarrow>
            aggregate_evaluate se ui r results failures =
              (Inr (l, m), ui_log ui (round_label r) no_accuracy_msg))"
  using assms by (simp add: aggregate_evaluate_def)

theorem aggregate_evaluate_accuracy_gate_witness:
  "aggregate_evaluate (FedAvg_aggregate_evaluate (Some (weighted_metric ''accuracy''))) example_ui 1
     example_evaluate_results [()] =
     (Inr (Some (5 / 16), [(''accuracy'', SFloat (Finite (3 / 5)))]),
      ui_log example_ui (round_label 1) (accuracy_msg (SFloat (Finite (3 / 5))))) \<and>
   aggregate_evaluate (FedAvg_aggregate_evaluate None) example_ui 1 example_evaluate_results [()] =
     (Inr (Some (5 / 16), []), ui_log example_ui (round_label 1) no_accuracy_msg)"
proof -
  have ne: "example_evaluate_results \<noteq> []" by (simp add: example_evaluate_results_def)
  have a: "FedAvg_aggregate_evaluate (Some (weighted_metric ''accuracy'')) 1 example_evaluate_results [()] =
      Inr (Some (5 / 16), [(''accuracy'', SFloat (Finite (3 / 5)))])"
    by (simp add: FedAvg_aggregate_evaluate_def weighted_loss_def weighted_metric_def
        example_evaluate_results_def example_score_def)
  have b: "FedAvg_aggregate_evaluate None 1 example_evaluate_results [()] = Inr (Some (5 / 16), [])"
    by (simp add: FedAvg_aggregate_evaluate_def weighted_loss_def
        example_evaluate_results_def example_score_def)
  show ?thesis
    using
      aggregate_evaluate_accuracy_gate[where se = "FedAvg_aggregate_evaluate (Some (weighted_metric ''accuracy''))"
        and r = 1 and results = example_evaluate_results and failures = "[()]" and ui = example_ui,
        OF ne a]
      aggregate_evaluate_accuracy_gate[where se = "FedAvg_aggregate_evaluate None"
        and r = 1 and results = example_evaluate_results and failures = "[()]" and ui = example_ui,
        OF ne b]
    by simp
qed

text \<open>
  The claim as the spec words it fails: both clients of the example round
  report an accuracy, the base class aggregates no metrics (the setting of
  \<^verbatim>\<open>server.py\<close>), and the round returns an empty metrics map and logs that
  accuracy is unavailable.
\<close>

theorem aggregate_evaluate_accuracy_counterexample:
  "map (client_metric ''accuracy'') (map snd example_evaluate_results) =
     [Some (SFloat (Finite (9 / 10))), Some (SFloat (Finite (1 / 2)))] \<and>
   fst (aggregate_evaluate (FedAvg_aggregate_evaluate None) example_ui 1
          example_evaluate_results ([] :: unit list)) = Inr (Some (5 / 16), []) \<and>
   rows (snd (aggregate_evaluate (FedAvg_aggregate_evaluate None) example_ui 1
          example_evaluate_results ([] :: unit list))) =
     [(''Round 1'', ''[yellow]No accuracy metrics available.[/yellow]'')]"
  by (simp add: aggregate_evaluate_def FedAvg_aggregate_evaluate_def weighted_loss_def
      example_evaluate_results_def example_score_def client_metric_def example_ui_def
      ui_log_def round_label_def no_accuracy_msg_def str_nat.simps digit_char_def)

text \<open>
  C10: when the aggregation of the base class returns a non-empty metrics map
  that holds the key \<^verbatim>\<open>accuracy\<close>, the metrics map handed to the caller has
  that key and no other, with the aggregated value; every other aggregated
  key is dropped.
\<close>

theorem aggregate_evaluate_only_accuracy:
  assumes "results \<noteq> []" and "se r results failures = Inr (l, m)"
    and "m \<noteq> []" and "map_of m ''accuracy'' = Some acc"
  shows "\<exists>m'. fst (aggregate_evaluate se ui r results failures) = Inr (l, m') \<and>
           map fst m' = [''accuracy''] \<and> map_of m' ''accuracy'' = Some acc \<and>
           (\<forall>k. k \<noteq> ''accuracy'' \<longrightarrow> map_of m' k = None)"
  using assms by (simp add: aggregate_evaluate_def)

theorem aggregate_evaluate_only_accuracy_witness:
  "FedAvg_aggregate_evaluate (Some example_metrics_aggregation) 2 example_evaluate_results [()] =
     Inr (Some (5 / 16), [(''accuracy'', SFloat (Finite (3 / 5))), (''down_bytes'', SFloat (Finite 12))]) \<and>
   (\<exists>m'. fst (aggregate_evaluate (FedAvg_aggregate_evaluate (Some example_metrics_aggregation))
              example_ui 2 example_evaluate_results [()]) = Inr (Some (5 / 16), m') \<and>
         map fst m' = [''accuracy''] \<and> map_of m' ''down_bytes'' = None)"
proof -
  have ne: "example_evaluate_results \<noteq> []" by (simp add: example_evaluate_results_def)
  have a: "FedAvg_aggregate_evaluate (Some example_metrics_aggregation) 2 example_evaluate_results [()] =
     Inr (Some (5 / 16), [(''accuracy'', SFloat (Finite (3 / 5))), (''down_bytes'', SFloat (Finite 12))])"
    by (simp add: FedAvg_aggregate_evaluate_def weighted_loss_def weighted_metric_def
        example_metrics_aggregation_def example_evaluate_results_def example_score_def)
  have m: "[(''accuracy'', SFloat (Finite (3 / 5))), (''down_bytes'', SFloat (Finite 12))] \<noteq> []"
    by simp
  have k: "map_of [(''accuracy'', SFloat (Finite (3 / 5))), (''down_bytes'', SFloat (Finite 12))]
      ''accuracy'' = Some (SFloat (Finite (3 / 5)))"
    by simp
  show ?thesis
    using a
      aggregate_evaluate_only_accuracy[where se = "FedAvg_aggregate_evaluate (Some example_metrics_aggregation)"
        and r = 2 and results = example_evaluate_results and failures = "[()]" and ui = example_ui,
        OF ne a m k]
    by auto
qed

text \<open>
  C8: in a round with one result whose example count is positive, the client
  has weight 1 and the aggregated ParameterSet is that client's update itself,
  whatever the count is.
\<close>

theorem single_client_update:
  assumes "0 < num_examples fitres"
  shows "client_weight [(c, fitres)] fitres = 1 \<and>
         fst (aggregate_fit FedAvg_aggregate_fit ui r [(c, fitres)] failures) =
           Inr (Some (parameters fitres), [])"
proof -
  have w: "client_weight [(c, fitres)] fitres = 1"
    using assms by (simp add: client_weight_def total_examples_def)
  have s: "scale 1 w = w" for w by (simp add: scale_def)
  have "weighted_average [(c, fitres)] = parameters fitres"
    by (simp add: weighted_average_def weighted_params_def w s map_idI)
  then show ?thesis using w
    by (simp add: fst_aggregate_fit FedAvg_aggregate_fit_def)
qed

theorem single_client_update_witness:
  "0 < num_examples (example_update 7 [1, 2] [10]) \<and>
   client_weight [(''a'', example_update 7 [1, 2] [10])] (example_update 7 [1, 2] [10]) = 1 \<and>
   fst (aggregate_fit FedAvg_aggregate_fit example_ui 1 [(''a'', example_update 7 [1, 2] [10])] [()]) =
     Inr (Some [\<lparr>dtype = Float32, shape = [2], data = [1, 2]\<rparr>,
                \<lparr>dtype = Float32, shape = [1], data = [10]\<rparr>], [])"
proof -
  have h: "0 < num_examples (example_update 7 [1, 2] [10])" by (simp add: example_update_def)
  show ?thesis
    using h single_client_update[OF h, of "''a''" example_ui 1 "[()]"]
    by (simp add: example_update_def)
qed

text \<open>
  C1: for a non-empty results list with positive example counts over
  well-formed ParameterSets, \<^verbatim>\<open>aggregate_fit\<close> returns a well-formed
  ParameterSet whose every element is the sum over the clients of
  example count / sum of the example counts times the client's element; the
  weights add up to 1.
\<close>

theorem aggregate_fit_weighted_average:
  assumes "results \<noteq> []"
    and "\<forall>x\<in>set results. 0 < num_examples (snd x)"
    and "\<forall>x\<in>set results. conforms arch (parameters (snd x))"
  shows "\<exists>agg. fst (aggregate_fit FedAvg_aggregate_fit ui r results failures) = Inr (Some agg, []) \<and>
           conforms arch agg \<and>
           (\<forall>i<length arch. \<forall>j<prod_list (snd (arch ! i)).
              data (agg ! i) ! j =
                (\<Sum>x\<leftarrow>results.
                   of_nat (num_examples (snd x)) / of_nat (\<Sum>y\<leftarrow>results. num_examples (snd y)) *
                   data (parameters (snd x) ! i) ! j)) \<and>
           (\<Sum>x\<leftarrow>results.
              of_nat (num_examples (snd x)) / of_nat (\<Sum>y\<leftarrow>results. num_examples (snd y))) = (1::rat)"
proof -
  have t: "total_examples results = (\<Sum>y\<leftarrow>results. num_examples (snd y))"
    by (simp add: total_examples_def case_prod_unfold)
  have r: "fst (aggregate_fit FedAvg_aggregate_fit ui r results failures) =
      Inr (Some (weighted_average results), [])"
    using assms(1) by (simp add: fst_aggregate_fit FedAvg_aggregate_fit_def)
  show ?thesis
    using r weighted_average_pointwise[OF assms(1,3)] client_weights_sum[OF assms(1,2)]
    unfolding client_weight_def t by simp
qed

theorem aggregate_fit_weighted_average_witness:
  "example_fit_results \<noteq> [] \<and>
   list_all (\<lambda>x. 0 < num_examples (snd x)) example_fit_results \<and>
   list_all (\<lambda>x. conforms example_arch (parameters (snd x))) example_fit_results \<and>
   (\<exists>agg. fst (aggregate_fit FedAvg_aggregate_fit example_ui 1 example_fit_results [()]) =
             Inr (Some agg, []) \<and>
          data (agg ! 0) ! 0 = 4 \<and> data (agg ! 0) ! 1 = 37 / 5 \<and> data (agg ! 1) ! 0 = 31)"
proof -
  have h1: "example_fit_results \<noteq> []" by (simp add: example_fit_results_def)
  have h2: "\<forall>x\<in>set example_fit_results. 0 < num_examples (snd x)"
    by (simp add: example_fit_results_def example_update_def)
  have h3: "\<forall>x\<in>set example_fit_results. conforms example_arch (parameters (snd x))"
    by (simp add: example_fit_results_def example_update_def example_arch_def conforms_def)
  from aggregate_fit_weighted_average[OF h1 h2 h3, of example_ui 1 "[()]"]
  obtain agg where a: "fst (aggregate_fit FedAvg_aggregate_fit example_ui 1 example_fit_results [()]) =
      Inr (Some agg, [])"
    and p: "\<forall>i<length example_arch. \<forall>j<prod_list (snd (example_arch ! i)).
              data (agg ! i) ! j =
                (\<Sum>x\<leftarrow>example_fit_results.
                   of_nat (num_examples (snd x)) /
                   of_nat (\<Sum>y\<leftarrow>example_fit_results. num_examples (snd y)) *
                   data (parameters (snd x) ! i) ! j)"
    by blast
  have "data (agg ! 0) ! 0 = 4" "data (agg ! 0) ! 1 = 37 / 5" "data (agg ! 1) ! 0 = 31"
    using p[rule_format, of 0 0] p[rule_format, of 0 1] p[rule_format, of 1 0]
    by (simp_all add: example_arch_def example_fit_results_def example_update_def)
  then show ?thesis using h1 h2 h3 a unfolding list_all_iff by blast
qed

lemma sum_list_map_mset:
  fixes f :: "'a \<Rightarrow> rat"
  assumes "mset xs = mset ys"
  shows "(\<Sum>x\<leftarrow>xs. f x) = (\<Sum>x\<leftarrow>ys. f x)"
proof -
  have "mset (map f xs) = mset (map f ys)" using assms by simp
  then show ?thesis by (metis sum_mset_sum_list)
qed

lemma total_examples_mset:
  assumes "mset xs = mset ys"
  shows "total_examples xs = total_examples ys"
proof -
  have "mset (map (\<lambda>(_, fitres). num_examples fitres) xs) =
        mset (map (\<lambda>(_, fitres). num_examples fitres) ys)"
    using assms by simp
  then show ?thesis unfolding total_examples_def by (metis sum_mset_sum_list)
qed

lemma weighted_average_mset:
  assumes ne: "results \<noteq> []"
    and conf: "\<forall>x\<in>set results. conforms arch (parameters (snd x))"
    and perm: "mset results' = mset results"
  shows "weighted_average results' = weighted_average results"
proof -
  have s: "set results' = set results" using perm by (rule mset_eq_setD)
  have ne': "results' \<noteq> []" using ne perm by auto
  have conf': "\<forall>x\<in>set results'. conforms arch (parameters (snd x))" using conf s by simp
  note a = weighted_average_pointwise[OF ne conf]
  note b = weighted_average_pointwise[OF ne' conf']
  have ca: "conforms arch (weighted_average results)" using a by simp
  have cb: "conforms arch (weighted_average results')" using b by simp
  have cw: "client_weight results' = client_weight results"
    by (simp add: client_weight_def fun_eq_iff total_examples_mset[OF perm])
  show ?thesis
  proof (rule nth_equalityI)
    show "length (weighted_average results') = length (weighted_average results)"
      using ca cb by (simp add: conforms_length)
  next
    fix i assume "i < length (weighted_average results')"
    then have i: "i < length arch" using cb by (simp add: conforms_length)
    let ?v = "weighted_average results' ! i" and ?w = "weighted_average results ! i"
    have d: "dtype ?v = dtype ?w"
      using conforms_nth(1)[OF ca i] conforms_nth(1)[OF cb i] by simp
    have sh: "shape ?v = shape ?w"
      using conforms_nth(2)[OF ca i] conforms_nth(2)[OF cb i] by simp
    have len: "length (data ?v) = prod_list (snd (arch ! i))"
      "length (data ?w) = prod_list (snd (arch ! i))"
      using conforms_nth(3)[OF ca i] conforms_nth(3)[OF cb i] by simp_all
    have "data ?v = data ?w"
    proof (rule nth_equalityI)
      show "length (data ?v) = length (data ?w)" using len by simp
    next
      fix j assume "j < length (data ?v)"
      then have j: "j < prod_list (snd (arch ! i))" using len by simp
      have "data ?v ! j =
          (\<Sum>x\<leftarrow>results'. client_weight results (snd x) * data (parameters (snd x) ! i) ! j)"
        using b i j by (simp add: cw)
      also have "\<dots> =
          (\<Sum>x\<leftarrow>results. client_weight results (snd x) * data (parameters (snd x) ! i) ! j)"
        by (rule sum_list_map_mset[OF perm])
      also have "\<dots> = data ?w ! j" using a i j by simp
      finally show "data ?v ! j = data ?w ! j" .
    qed
    with d sh show "?v = ?w" by (simp add: ndarray.equality)
  qed
qed

text \<open>
  C7: for a non-empty results list of well-formed ParameterSets, any
  permutation of the list gives the same aggregated ParameterSet. The
  arithmetic is exact here, so the two results are equal.
\<close>

theorem aggregate_fit_permutation:
  assumes "results \<noteq> []"
    and "\<forall>x\<in>set results. conforms arch (parameters (snd x))"
    and "mset results' = mset results"
  shows "fst (aggregate_fit FedAvg_aggregate_fit ui r results' failures) =
         fst (aggregate_fit FedAvg_aggregate_fit ui r results failures)"
proof -
  have "results' \<noteq> []" using assms(1,3) by auto
  then show ?thesis
    using assms(1) weighted_average_mset[OF assms]
    by (simp add: fst_aggregate_fit FedAvg_aggregate_fit_def)
qed

theorem aggregate_fit_permutation_witness:
  "example_fit_results \<noteq> [] \<and>
   list_all (\<lambda>x. conforms example_arch (parameters (snd x))) example_fit_results \<and>
   mset (rev example_fit_results) = mset example_fit_results \<and>
   rev example_fit_results \<noteq> example_fit_results \<and>
   fst (aggregate_fit FedAvg_aggregate_fit example_ui 1 (rev example_fit_results) [()]) =
   fst (aggregate_fit FedAvg_aggregate_fit example_ui 1 example_fit_results [()])"
proof -
  have h1: "example_fit_results \<noteq> []" by (simp add: example_fit_results_def)
  have h2: "\<forall>x\<in>set example_fit_results. conforms example_arch (parameters (snd x))"
    by (simp add: example_fit_results_def example_update_def example_arch_def conforms_def)
  have h3: "mset (rev example_fit_results) = mset example_fit_results" by simp
  have h4: "rev example_fit_results \<noteq> example_fit_results"
    by (simp add: example_fit_results_def)
  show ?thesis
    using h1 h2 h3 h4 aggregate_fit_permutation[OF h1 h2 h3, of example_ui 1 "[()]"]
    unfolding list_all_iff by blast
qed

lemma aggregate_fit_last_row:
  assumes "results \<noteq> []" and "failures \<noteq> []" and "sf r results failures = Inr a"
  shows "last (rows (snd (aggregate_fit sf ui r results failures))) =
           (round_label r, failures_msg (length failures))"
  using assms
  by (cases "tally_bytes results") (simp add: aggregate_fit_def Let_def rows_ui_log)

text \<open>
  C9: with results and failures both non-empty, \<^verbatim>\<open>aggregate_fit\<close> returns the
  weighted average of the results, the same value as with no failures, and
  the last row it logs is the warning with the number of failures.
\<close>

theorem failures_do_not_block_aggregation:
  assumes "results \<noteq> []" and "failures \<noteq> ([] :: 'f list)"
  shows "fst (aggregate_fit FedAvg_aggregate_fit ui r results failures) =
           Inr (Some (weighted_average results), []) \<and>
         fst (aggregate_fit FedAvg_aggregate_fit ui r results failures) =
           fst (aggregate_fit FedAvg_aggregate_fit ui r results ([] :: 'f list)) \<and>
         last (rows (snd (aggregate_fit FedAvg_aggregate_fit ui r results failures))) =
           (round_label r, failures_msg (length failures))"
proof -
  have a: "FedAvg_aggregate_fit r results failures = Inr (Some (weighted_average results), [])"
    using assms(1) by (simp add: FedAvg_aggregate_fit_def)
  show ?thesis
    using assms(1) a
      aggregate_fit_last_row[where sf = FedAvg_aggregate_fit and r = r and results = results
        and failures = failures and ui = ui, OF assms a]
    by (simp add: fst_aggregate_fit FedAvg_aggregate_fit_def)
qed

theorem failures_do_not_block_aggregation_witness:
  "[(''b'', example_update 30 [3, 4] [20])] \<noteq> [] \<and> [''a''] \<noteq> [] \<and>
   fst (aggregate_fit FedAvg_aggregate_fit example_ui 1 [(''b'', example_update 30 [3, 4] [20])] [''a'']) =
     Inr (Some [\<lparr>dtype = Float32, shape = [2], data = [3, 4]\<rparr>,
                \<lparr>dtype = Float32, shape = [1], data = [20]\<rparr>], []) \<and>
   last (rows (snd (aggregate_fit FedAvg_aggregate_fit example_ui 1
                      [(''b'', example_update 30 [3, 4] [20])] [''a'']))) =
     (''Round 1'', ''[yellow]Warning: 1 clients failed.[/yellow]'')"
proof -
  have h1: "[(''b'', example_update 30 [3, 4] [20])] \<noteq> []" by simp
  have h2: "[''a''] \<noteq> []" by simp
  have w: "weighted_average [(''b'', example_update 30 [3, 4] [20])] =
      [\<lparr>dtype = Float32, shape = [2], data = [3, 4]\<rparr>, \<lparr>dtype = Float32, shape = [1], data = [20]\<rparr>]"
    by (simp add: weighted_average_def weighted_params_def client_weight_def total_examples_def
        example_update_def scale_def)
  show ?thesis
    using failures_do_not_block_aggregation[OF h1 h2, of example_ui 1]
    by (simp add: w round_label_def failures_msg_def str_nat.simps digit_char_def)
qed

section \<open>Properties of the client and of the byte counts\<close>

lemma sum_nbytes_arrays: "sum_nbytes acc (map Array ws) = Inr (acc + params_nbytes ws)"
  by (induction ws arbitrary: acc) (simp_all add: params_nbytes_def)

lemma count_bytes_arrays: "count_bytes (map Array ws) = params_nbytes ws"
  by (simp add: count_bytes_def sum_nbytes_arrays)

lemma nbytes_of_Inl: "nbytes_of p = Inl e \<Longrightarrow> e = AttributeError"
  by (cases p) auto

lemma sum_nbytes_fails:
  "p \<in> set ps \<Longrightarrow> isl (nbytes_of p) \<Longrightarrow> sum_nbytes acc ps = Inl AttributeError"
proof (induction ps arbitrary: acc)
  case Nil
  then show ?case by simp
next
  case (Cons q ps)
  show ?case
  proof (cases "nbytes_of q")
    case (Inl e)
    then show ?thesis using nbytes_of_Inl[OF Inl] by simp
  next
    case (Inr n)
    then have "q \<noteq> p" using Cons.prems(2) by auto
    then have "p \<in> set ps" using Cons.prems(1) by simp
    then show ?thesis using Cons.IH Cons.prems(2) Inr by simp
  qed
qed

lemma count_bytes_fails: "p \<in> set ps \<Longrightarrow> isl (nbytes_of p) \<Longrightarrow> count_bytes ps = 0"
  by (simp add: count_bytes_def sum_nbytes_fails)

lemma assign_all_values:
  "map value_of ps = map Some ws \<Longrightarrow> map shape ws = map shape vs \<Longrightarrow>
   assign_all vs ps = (None, ws)"
proof (induction vs ps arbitrary: ws rule: assign_all.induct)
  case (1 v vs p ps)
  then obtain w ws' where ws: "ws = w # ws'" by (cases ws) auto
  have v: "value_of p = Some w" "map value_of ps = map Some ws'" using "1.prems"(1) ws by auto
  have s: "shape v = shape w" "map shape ws' = map shape vs" using "1.prems"(2) ws by auto
  have "assign_all vs ps = (None, ws')" using "1.IH"[OF v(1) _ v(2) s(2)] s(1) by simp
  then show ?case using v(1) s(1) ws by simp
qed simp_all

lemma assign_all_None:
  "length vs = length ps \<Longrightarrow> assign_all vs ps = (None, ws) \<Longrightarrow>
   map value_of ps = map Some ws \<and> map shape ws = map shape vs"
proof (induction vs ps arbitrary: ws rule: assign_all.induct)
  case (1 v vs p ps)
  from "1.prems"(2) obtain w where w: "value_of p = Some w"
    by (cases "value_of p") auto
  from "1.prems"(2) w have sh: "shape v = shape w" by (auto split: if_splits)
  obtain r vs' where a: "assign_all vs ps = (r, vs')" by (cases "assign_all vs ps")
  from "1.prems"(2) w sh a have r: "r = None" "ws = w # vs'" by auto
  have "map value_of ps = map Some vs' \<and> map shape vs' = map shape vs"
    using "1.IH"[OF w _ _ a[unfolded r(1)]] sh "1.prems"(1) by simp
  then show ?case using w sh r by simp
qed simp_all

lemma set_weights_values:
  assumes "map value_of ps = map Some ws" and "map shape ws = map shape (weights m)"
  shows "set_weights m ps = (None, m\<lparr>weights := ws\<rparr>)"
proof -
  have "length ps = length ws" using assms(1) by (metis length_map)
  moreover have "length ws = length (weights m)" using assms(2) by (metis length_map)
  ultimately show ?thesis
    using assign_all_values[OF assms] by (simp add: set_weights_def)
qed

lemma set_weights_arrays:
  "map shape ws = map shape (weights m) \<Longrightarrow> set_weights m (map Array ws) = (None, m\<lparr>weights := ws\<rparr>)"
  by (rule set_weights_values) (simp_all add: comp_def)

lemma set_weights_None:
  assumes "set_weights m ps = (None, m1)"
  shows "\<exists>ws. map value_of ps = map Some ws \<and> map shape ws = map shape (weights m) \<and>
              m1 = m\<lparr>weights := ws\<rparr>"
proof -
  have len: "length (weights m) = length ps"
    using assms by (auto simp add: set_weights_def split: if_splits)
  obtain r ws where a: "assign_all (weights m) ps = (r, ws)" by (cases "assign_all (weights m) ps")
  then have "r = None" "m1 = m\<lparr>weights := ws\<rparr>"
    using assms len by (auto simp add: set_weights_def)
  then show ?thesis using assign_all_None[OF len] a by auto
qed

lemma set_weights_arrays_None:
  assumes "set_weights m (map Array ws) = (None, m1)"
  shows "map shape ws = map shape (weights m) \<and> m1 = m\<lparr>weights := ws\<rparr>"
proof -
  from set_weights_None[OF assms] obtain ws' where
    w: "map value_of (map Array ws) = map Some ws'" "map shape ws' = map shape (weights m)"
      "m1 = m\<lparr>weights := ws'\<rparr>" by blast
  have "map Some ws = map Some ws'" using w(1) by (simp add: comp_def)
  then have "ws = ws'" by (simp add: inj_map_eq_map)
  then show ?thesis using w by simp
qed

lemma split_at_tenth: "split_at n (1 / 10) = (9 * n) div 10"
proof -
  have "(of_nat n :: rat) * (1 - 1 / 10) = of_nat (9 * n) / of_nat 10" by simp
  then have "\<lfloor>(of_nat n :: rat) * (1 - 1 / 10)\<rfloor> = int ((9 * n) div 10)"
    by (simp only: floor_divide_of_nat_eq)
  then show ?thesis by (simp add: split_at_def)
qed

lemma keras_fit_one_epoch:
  assumes "length y = length x" and "2 \<le> length x"
  shows "keras_fit run_epoch m x y 1 batch_size (1 / 10) =
     Inr (run_epoch m (take ((9 * length x) div 10) x) (take ((9 * length x) div 10) y) batch_size)"
proof -
  have "0 < (9 * length x) div 10" "(9 * length x) div 10 < length x"
    using assms(2) by auto
  then show ?thesis using assms(1) by (simp add: keras_fit_def split_at_tenth Let_def)
qed


lemma fit_values:
  assumes "map value_of ps = map Some ws"
    and "map shape ws = map shape (weights (model st))"
    and "length (y_train st) = length (x_train st)"
    and "2 \<le> length (x_train st)"
  shows "fit run_epoch st ps config =
     (let k = (9 * length (x_train st)) div 10;
          m2 = run_epoch ((model st)\<lparr>weights := ws\<rparr>) (take k (x_train st)) (take k (y_train st)) 32
      in (Inr (weights m2, length (x_train st),
               [(''up_bytes'', SInt (int (params_nbytes (weights m2)))),
                (''down_bytes'', SInt (int (count_bytes ps)))]),
          st\<lparr>model := m2\<rparr>))"
  by (simp add: fit_def Let_def set_weights_values[OF assms(1,2)]
      keras_fit_one_epoch[OF assms(3,4), unfolded One_nat_def] count_bytes_arrays get_weights_def)

lemma fit_arrays:
  assumes "map shape ws = map shape (weights (model st))"
    and "length (y_train st) = length (x_train st)"
    and "2 \<le> length (x_train st)"
  shows "fit run_epoch st (map Array ws) config =
     (let k = (9 * length (x_train st)) div 10;
          m2 = run_epoch ((model st)\<lparr>weights := ws\<rparr>) (take k (x_train st)) (take k (y_train st)) 32
      in (Inr (weights m2, length (x_train st),
               [(''up_bytes'', SInt (int (params_nbytes (weights m2)))),
                (''down_bytes'', SInt (int (params_nbytes ws)))]),
          st\<lparr>model := m2\<rparr>))"
proof -
  have v: "map value_of (map Array ws) = map Some ws" by (simp add: comp_def)
  show ?thesis using fit_values[OF v assms, of run_epoch config]
    by (simp add: count_bytes_arrays)
qed

lemma evaluate_values:
  assumes "map value_of ps = map Some ws"
    and "map shape ws = map shape (weights (model st))"
  shows "evaluate model_evaluate st ps config =
     (let m1 = (model st)\<lparr>weights := ws\<rparr>;
          la = model_evaluate m1 (x_test st) (y_test st)
      in (Inr (fst la, length (x_test st),
               [(''accuracy'', SFloat (Finite (snd la))),
                (''down_bytes'', SInt (int (count_bytes ps)))]),
          st\<lparr>model := m1\<rparr>))"
  by (simp add: evaluate_def Let_def set_weights_values[OF assms] split: prod.split)

lemma fit_reports:
  assumes "fst (fit run_epoch st ps config) = Inr (new_weights, n, ms)"
  shows "map_of ms ''up_bytes'' = Some (SInt (int (params_nbytes new_weights)))"
    and "map_of ms ''down_bytes'' = Some (SInt (int (count_bytes ps)))"
  using assms
  by (auto simp add: fit_def Let_def count_bytes_arrays get_weights_def
      split: prod.splits option.splits sum.splits)

lemma evaluate_reports:
  assumes "fst (evaluate model_evaluate st ps config) = Inr (l, n, ms)"
  shows "map_of ms ''down_bytes'' = Some (SInt (int (count_bytes ps)))"
  using assms
  by (auto simp add: evaluate_def Let_def split: prod.splits option.splits)

lemma fit_Inl:
  "fst (fit run_epoch st ps config) = Inl e \<longleftrightarrow>
     fst (set_weights (model st) ps) = Some e \<or>
     fst (set_weights (model st) ps) = None \<and>
     keras_fit run_epoch (snd (set_weights (model st) ps)) (x_train st) (y_train st) 1 32 (1 / 10) =
       Inl e"
  by (auto simp add: fit_def Let_def split: prod.splits option.splits sum.splits)

lemma evaluate_Inl:
  "fst (evaluate model_evaluate st ps config) = Inl e \<longleftrightarrow>
     fst (set_weights (model st) ps) = Some e"
  by (auto simp add: evaluate_def Let_def split: prod.splits option.splits)

lemma tally_step_Inl:
  "tally_step t fitres = Inl e \<Longrightarrow> tally_step t' fitres = Inl e"
  by (auto simp add: tally_step_def split: option.splits sum.splits)

lemma tally_loop_Inl:
  assumes "(c, fitres) \<in> set results" and "tally_step t0 fitres = Inl e"
  shows "\<exists>e'. tally_loop t results = Inl e'"
  using assms(1)
proof (induction results arbitrary: t)
  case Nil
  then show ?case by simp
next
  case (Cons x results)
  obtain c' f' where x: "x = (c', f')" by (cases x)
  show ?case
  proof (cases "tally_step t f'")
    case (Inl e1)
    then show ?thesis by (simp add: x)
  next
    case (Inr t1)
    then have "f' \<noteq> fitres" using tally_step_Inl[OF assms(2), of t] by auto
    then have "(c, fitres) \<in> set results" using Cons.prems x by auto
    then show ?thesis using Cons.IH Inr by (simp add: x)
  qed
qed

lemma tally_bytes_fails:
  assumes "(c, fitres) \<in> set results" and "tally_step t0 fitres = Inl e"
  shows "tally_bytes results = (0, 0)"
  using tally_loop_Inl[OF assms, of "(0, 0)"] by (auto simp add: tally_bytes_def)

lemma tally_step_conversion:
  assumes "metrics fitres = Some m"
    and "isl (py_int (dict_get m ''up_bytes'' (dict_get m ''bytes'' (SInt 0)))) \<or>
         isl (py_int (dict_get m ''down_bytes'' (SInt 0)))"
  shows "\<exists>e. tally_step t fitres = Inl e"
  using assms by (auto simp add: tally_step_def isl_def split: sum.splits)

lemma aggregate_fit_no_byte_row:
  assumes "results \<noteq> []" and "tally_bytes results = (0, 0)" and "sf r results failures = Inr a"
  shows "rows (snd (aggregate_fit sf ui r results failures)) =
     rows ui @ (round_label r, aggregating_msg (length results)) #
       (if failures = [] then [] else [(round_label r, failures_msg (length failures))])"
  using assms by (simp add: aggregate_fit_def Let_def rows_ui_log)

lemma aggregate_fit_Inl:
  "fst (aggregate_fit sf ui r results failures) = Inl e \<longleftrightarrow>
     results \<noteq> [] \<and> sf r results failures = Inl e"
  by (cases "results = []") (simp_all add: aggregate_fit_empty fst_aggregate_fit)


subsection \<open>Claims about the byte counts and the client\<close>

text \<open>
  C5: byte counting is best-effort. On the client, a parameter list with an
  element that has no \<^verbatim>\<open>nbytes\<close> counts as 0 bytes; whenever \<^verbatim>\<open>fit\<close> or
  \<^verbatim>\<open>evaluate\<close> returns, the metrics hold the counts, and \<^verbatim>\<open>down_bytes\<close> is 0
  when the count of the received list failed. \<^verbatim>\<open>fit\<close> raises exactly the
  exceptions of \<^verbatim>\<open>set_weights\<close> and of \<^verbatim>\<open>model.fit\<close>, and \<^verbatim>\<open>evaluate\<close> exactly
  those of \<^verbatim>\<open>set_weights\<close>: none comes out of the byte counting. On the
  server, a result whose byte metrics cannot be converted by \<^verbatim>\<open>int\<close> makes
  both totals 0, so that no byte row is logged, and \<^verbatim>\<open>aggregate_fit\<close> returns
  what the base class returns (or the empty-round sentinel): the tally adds no
  exception.
\<close>

theorem byte_counting_best_effort:
  "(p \<in> set ps \<and> isl (nbytes_of p) \<longrightarrow> count_bytes ps = 0) \<and>
   (fst (fit run_epoch st ps config) = Inr (new_weights, n, ms) \<longrightarrow>
      map_of ms ''up_bytes'' = Some (SInt (int (params_nbytes new_weights))) \<and>
      map_of ms ''down_bytes'' = Some (SInt (int (count_bytes ps))) \<and>
      (p \<in> set ps \<and> isl (nbytes_of p) \<longrightarrow> map_of ms ''down_bytes'' = Some (SInt 0))) \<and>
   (fst (evaluate model_evaluate st ps config) = Inr (l, n', ms') \<longrightarrow>
      map_of ms' ''down_bytes'' = Some (SInt (int (count_bytes ps))) \<and>
      (p \<in> set ps \<and> isl (nbytes_of p) \<longrightarrow> map_of ms' ''down_bytes'' = Some (SInt 0))) \<and>
   (fst (fit run_epoch st ps config) = Inl e \<longleftrightarrow>
      fst (set_weights (model st) ps) = Some e \<or>
      fst (set_weights (model st) ps) = None \<and>
      keras_fit run_epoch (snd (set_weights (model st) ps)) (x_train st) (y_train st) 1 32 (1 / 10) =
        Inl e) \<and>
   (fst (evaluate model_evaluate st ps config) = Inl e \<longleftrightarrow>
      fst (set_weights (model st) ps) = Some e) \<and>
   ((c, fitres) \<in> set results \<and> metrics fitres = Some m \<and>
    (isl (py_int (dict_get m ''up_bytes'' (dict_get m ''bytes'' (SInt 0)))) \<or>
     isl (py_int (dict_get m ''down_bytes'' (SInt 0)))) \<longrightarrow>
      tally_bytes results = (0, 0) \<and>
      (\<forall>a. sf r results failures = Inr a \<longrightarrow>
         rows (snd (aggregate_fit sf ui r results failures)) =
           rows ui @ (round_label r, aggregating_msg (length results)) #
             (if failures = [] then [] else [(round_label r, failures_msg (length failures))]))) \<and>
   fst (aggregate_fit sf ui r results failures) =
     (if results = [] then Inr (None, []) else sf r results failures)"
proof -
  have t: "tally_bytes results = (0, 0) \<and>
      (\<forall>a. sf r results failures = Inr a \<longrightarrow>
         rows (snd (aggregate_fit sf ui r results failures)) =
           rows ui @ (round_label r, aggregating_msg (length results)) #
             (if failures = [] then [] else [(round_label r, failures_msg (length failures))]))"
    if h: "(c, fitres) \<in> set results" "metrics fitres = Some m"
      "isl (py_int (dict_get m ''up_bytes'' (dict_get m ''bytes'' (SInt 0)))) \<or>
       isl (py_int (dict_get m ''down_bytes'' (SInt 0)))"
  proof -
    obtain e0 where "tally_step (0, 0) fitres = Inl e0"
      using tally_step_conversion[OF h(2,3)] by blast
    then have z: "tally_bytes results = (0, 0)" using h(1) by (rule tally_bytes_fails[rotated])
    have ne: "results \<noteq> []" using h(1) by auto
    show ?thesis using z aggregate_fit_no_byte_row[OF ne z] by blast
  qed
  have f: "fst (aggregate_fit sf ui r results failures) =
     (if results = [] then Inr (None, []) else sf r results failures)"
    by (simp add: aggregate_fit_empty fst_aggregate_fit)
  have a: "map_of ms ''up_bytes'' = Some (SInt (int (params_nbytes new_weights))) \<and>
      map_of ms ''down_bytes'' = Some (SInt (int (count_bytes ps))) \<and>
      (p \<in> set ps \<and> isl (nbytes_of p) \<longrightarrow> map_of ms ''down_bytes'' = Some (SInt 0))"
    if "fst (fit run_epoch st ps config) = Inr (new_weights, n, ms)"
    using fit_reports[OF that] count_bytes_fails[of p ps] by auto
  have b: "map_of ms' ''down_bytes'' = Some (SInt (int (count_bytes ps))) \<and>
      (p \<in> set ps \<and> isl (nbytes_of p) \<longrightarrow> map_of ms' ''down_bytes'' = Some (SInt 0))"
    if "fst (evaluate model_evaluate st ps config) = Inr (l, n', ms')"
    using evaluate_reports[OF that] count_bytes_fails[of p ps] by auto
  have c: "p \<in> set ps \<and> isl (nbytes_of p) \<longrightarrow> count_bytes ps = 0"
    using count_bytes_fails[of p ps] by blast
  show ?thesis
    using t f a b c fit_Inl[of run_epoch st ps config e] evaluate_Inl[of model_evaluate st ps config e]
    by blast
qed

theorem byte_counting_best_effort_witness:
  "Tensor (example_parameters ! 0) \<in> set [Tensor (example_parameters ! 0), Array (example_parameters ! 1)] \<and>
   isl (nbytes_of (Tensor (example_parameters ! 0))) \<and>
   count_bytes [Tensor (example_parameters ! 0), Array (example_parameters ! 1)] = 0 \<and>
   fst (fit example_epoch example_client
          [Tensor (example_parameters ! 0), Array (example_parameters ! 1)] []) =
     Inr (map (scale (1 / 2)) example_parameters, 10,
          [(''up_bytes'', SInt 120), (''down_bytes'', SInt 0)]) \<and>
   fst (evaluate example_scorer example_client
          [Tensor (example_parameters ! 0), Array (example_parameters ! 1)] []) =
     Inr (1 / 2, 2, [(''accuracy'', SFloat (Finite (3 / 4))), (''down_bytes'', SInt 0)]) \<and>
   fst (set_weights (model example_client) [Opaque, Array (example_parameters ! 1)]) =
     Some AttributeError \<and>
   fst (fit example_epoch example_client [Opaque, Array (example_parameters ! 1)] []) =
     Inl AttributeError \<and>
   fst (evaluate example_scorer example_client [Opaque, Array (example_parameters ! 1)] []) =
     Inl AttributeError \<and>
   (''d'', example_bad_update) \<in> set (example_fit_results @ [(''d'', example_bad_update)]) \<and>
   isl (py_int (dict_get [(''up_bytes'', SFloat NaN), (''down_bytes'', SInt 12)] ''up_bytes''
     (dict_get [(''up_bytes'', SFloat NaN), (''down_bytes'', SInt 12)] ''bytes'' (SInt 0)))) \<and>
   tally_bytes example_fit_results = (36, 36) \<and>
   tally_bytes (example_fit_results @ [(''d'', example_bad_update)]) = (0, 0) \<and>
   rows (snd (aggregate_fit FedAvg_aggregate_fit example_ui 1
                (example_fit_results @ [(''d'', example_bad_update)]) [''e''])) =
     [(''Round 1'', ''Aggregating results from 4 clients...''),
      (''Round 1'', ''[yellow]Warning: 1 clients failed.[/yellow]'')]"
proof -
  let ?t = "Tensor (example_parameters ! 0)"
  let ?ps = "[?t, Array (example_parameters ! 1)]"
  let ?qs = "[Opaque, Array (example_parameters ! 1)]"
  let ?m = "[(''up_bytes'', SFloat NaN), (''down_bytes'', SInt 12)]"
  let ?rs = "example_fit_results @ [(''d'', example_bad_update)]"
  have v: "map value_of ?ps = map Some example_parameters"
    by (simp add: example_parameters_def)
  have s: "map shape example_parameters = map shape (weights (model example_client))"
    by (simp add: example_parameters_def example_client_def example_model_def)
  have l: "length (y_train example_client) = length (x_train example_client)"
    "2 \<le> length (x_train example_client)"
    by (simp_all add: example_client_def)
  have n2: "params_nbytes (map (scale (1 / 2)) example_parameters) = 120"
    by (simp add: params_nbytes_def nbytes_def example_parameters_def scale_def)
  have x: "length (x_train example_client) = 10" "length (x_test example_client) = 2"
    by (simp_all add: example_client_def)
  have h1: "?t \<in> set ?ps" by simp
  have h2: "isl (nbytes_of ?t)" by simp
  have f1: "fst (fit example_epoch example_client ?ps []) =
      Inr (map (scale (1 / 2)) example_parameters, 10,
           [(''up_bytes'', SInt 120), (''down_bytes'', SInt (int (count_bytes ?ps)))])"
    using fit_values[OF v s l, of example_epoch "[]"]
    by (simp add: Let_def example_epoch_def n2 x)
  have e1: "fst (evaluate example_scorer example_client ?ps []) =
      Inr (1 / 2, 2, [(''accuracy'', SFloat (Finite (3 / 4))),
                      (''down_bytes'', SInt (int (count_bytes ?ps)))])"
    using evaluate_values[OF v s, of example_scorer "[]"]
    by (simp add: Let_def example_scorer_def x)
  have q: "fst (set_weights (model example_client) ?qs) = Some AttributeError"
    by (simp add: set_weights_def example_client_def example_model_def)
  have h3: "(''d'', example_bad_update) \<in> set ?rs" by simp
  have h4: "metrics example_bad_update = Some ?m" by (simp add: example_bad_update_def)
  have h5: "isl (py_int (dict_get ?m ''up_bytes'' (dict_get ?m ''bytes'' (SInt 0))))"
    by (simp add: dict_get_def)
  have h6: "FedAvg_aggregate_fit 1 ?rs [''e''] = Inr (Some (weighted_average ?rs), [])"
    by (simp add: FedAvg_aggregate_fit_def)
  have h7: "tally_bytes example_fit_results = (36, 36)"
    by (simp add: tally_bytes_def tally_step_def example_fit_results_def example_update_def
        dict_get_def)
  note w1 = byte_counting_best_effort[where p = ?t and ps = ?ps and st = example_client
      and run_epoch = example_epoch and model_evaluate = example_scorer and config = "[]"
      and new_weights = "map (scale (1 / 2)) example_parameters" and n = 10
      and ms = "[(''up_bytes'', SInt 120), (''down_bytes'', SInt (int (count_bytes ?ps)))]"
      and l = "1 / 2" and n' = 2
      and ms' = "[(''accuracy'', SFloat (Finite (3 / 4))), (''down_bytes'', SInt (int (count_bytes ?ps)))]"
      and e = AttributeError
      and c = "''d''" and fitres = example_bad_update and results = ?rs and m = ?m
      and sf = FedAvg_aggregate_fit and r = 1 and failures = "[''e'']" and ui = example_ui]
  note w2 = byte_counting_best_effort[where p = ?t and ps = ?qs and st = example_client
      and run_epoch = example_epoch and model_evaluate = example_scorer and config = "[]"
      and e = AttributeError
      and sf = FedAvg_aggregate_fit and r = 1 and failures = "[''e'']" and ui = example_ui]
  have z: "count_bytes ?ps = 0" using w1 h1 h2 by blast
  have r1: "tally_bytes ?rs = (0, 0)" using w1 h3 h4 h5 by blast
  have r2: "rows (snd (aggregate_fit FedAvg_aggregate_fit example_ui 1 ?rs [''e''])) =
      rows example_ui @ (round_label 1, aggregating_msg (length ?rs)) #
        [(round_label 1, failures_msg (length [''e'']))]"
    using w1 h3 h4 h5 h6 by simp
  have r3: "fst (fit example_epoch example_client ?qs []) = Inl AttributeError"
    "fst (evaluate example_scorer example_client ?qs []) = Inl AttributeError"
    using w2 q by blast+
  have r4: "rows example_ui @ (round_label 1, aggregating_msg (length ?rs)) #
        [(round_label 1, failures_msg (length [''e'']))] =
     [(''Round 1'', ''Aggregating results from 4 clients...''),
      (''Round 1'', ''[yellow]Warning: 1 clients failed.[/yellow]'')]"
    by (simp add: example_ui_def round_label_def aggregating_msg_def failures_msg_def
        str_nat.simps digit_char_def example_fit_results_def)
  show ?thesis
    using h1 h2 z f1 e1 q r3 h3 h5 h7 r1 r2 r4 by simp
qed

text \<open>
  C6: whenever \<^verbatim>\<open>fit\<close> returns, its \<^verbatim>\<open>up_bytes\<close> is the byte size of the
  ParameterSet it returns, and for a received ParameterSet (a list of numpy
  arrays) its \<^verbatim>\<open>down_bytes\<close> is the byte size of that ParameterSet; whenever
  \<^verbatim>\<open>evaluate\<close> returns, its \<^verbatim>\<open>down_bytes\<close> is the byte size of the received
  ParameterSet. The byte size is the sum of the arrays' \<^verbatim>\<open>nbytes\<close>; two
  float32 arrays of 10 and 20 elements have 120 bytes.
\<close>

theorem reported_bytes:
  "(fst (fit run_epoch st ps config) = Inr (new_weights, n, ms) \<longrightarrow>
      map_of ms ''up_bytes'' = Some (SInt (int (params_nbytes new_weights))) \<and>
      (\<forall>ws. ps = map Array ws \<longrightarrow>
         map_of ms ''down_bytes'' = Some (SInt (int (params_nbytes ws))))) \<and>
   (fst (evaluate model_evaluate st ps config) = Inr (l, n', ms') \<longrightarrow>
      (\<forall>ws. ps = map Array ws \<longrightarrow>
         map_of ms' ''down_bytes'' = Some (SInt (int (params_nbytes ws))))) \<and>
   (dtype v = Float32 \<and> shape v = [10] \<and> dtype w = Float32 \<and> shape w = [20] \<longrightarrow>
      params_nbytes [v, w] = 120 \<and> count_bytes [Array v, Array w] = 120)"
proof -
  have a: "map_of ms ''up_bytes'' = Some (SInt (int (params_nbytes new_weights))) \<and>
      (\<forall>ws. ps = map Array ws \<longrightarrow>
         map_of ms ''down_bytes'' = Some (SInt (int (params_nbytes ws))))"
    if "fst (fit run_epoch st ps config) = Inr (new_weights, n, ms)"
    using fit_reports[OF that] by (auto simp add: count_bytes_arrays)
  have b: "\<forall>ws. ps = map Array ws \<longrightarrow>
         map_of ms' ''down_bytes'' = Some (SInt (int (params_nbytes ws)))"
    if "fst (evaluate model_evaluate st ps config) = Inr (l, n', ms')"
    using evaluate_reports[OF that] by (auto simp add: count_bytes_arrays)
  have c: "params_nbytes [v, w] = 120 \<and> count_bytes [Array v, Array w] = 120"
    if "dtype v = Float32 \<and> shape v = [10] \<and> dtype w = Float32 \<and> shape w = [20]"
    using that count_bytes_arrays[of "[v, w]"] by (simp add: params_nbytes_def nbytes_def)
  show ?thesis using a b c by blast
qed

theorem reported_bytes_witness:
  "fst (fit example_epoch example_client (map Array example_parameters) []) =
     Inr (map (scale (1 / 2)) example_parameters, 10,
          [(''up_bytes'', SInt 120), (''down_bytes'', SInt 120)]) \<and>
   fst (evaluate example_scorer example_client (map Array example_parameters) []) =
     Inr (1 / 2, 2, [(''accuracy'', SFloat (Finite (3 / 4))), (''down_bytes'', SInt 120)]) \<and>
   params_nbytes example_parameters = 120"
proof -
  have s: "map shape example_parameters = map shape (weights (model example_client))"
    by (simp add: example_parameters_def example_client_def example_model_def)
  have v: "map value_of (map Array example_parameters) = map Some example_parameters"
    by (simp add: comp_def)
  have l: "length (y_train example_client) = length (x_train example_client)"
    "2 \<le> length (x_train example_client)"
    by (simp_all add: example_client_def)
  have x: "length (x_train example_client) = 10" "length (x_test example_client) = 2"
    by (simp_all add: example_client_def)
  have n2: "params_nbytes (map (scale (1 / 2)) example_parameters) = 120"
    by (simp add: params_nbytes_def nbytes_def example_parameters_def scale_def)
  obtain d where f: "fst (fit example_epoch example_client (map Array example_parameters) []) =
     Inr (map (scale (1 / 2)) example_parameters, 10, [(''up_bytes'', SInt 120), (''down_bytes'', d)])"
    using fit_values[OF v s l, of example_epoch "[]"]
    by (simp add: Let_def example_epoch_def n2 x)
  obtain d' where e: "fst (evaluate example_scorer example_client (map Array example_parameters) []) =
     Inr (1 / 2, 2, [(''accuracy'', SFloat (Finite (3 / 4))), (''down_bytes'', d')])"
    using evaluate_values[OF v s, of example_scorer "[]"]
    by (simp add: Let_def example_scorer_def x)
  have p: "dtype (example_parameters ! 0) = Float32 \<and> shape (example_parameters ! 0) = [10] \<and>
      dtype (example_parameters ! 1) = Float32 \<and> shape (example_parameters ! 1) = [20]"
    by (simp add: example_parameters_def)
  have q: "example_parameters = [example_parameters ! 0, example_parameters ! 1]"
    by (simp add: example_parameters_def)
  note w = reported_bytes[where run_epoch = example_epoch and st = example_client
      and ps = "map Array example_parameters" and config = "[]"
      and new_weights = "map (scale (1 / 2)) example_parameters" and n = 10
      and ms = "[(''up_bytes'', SInt 120), (''down_bytes'', d)]"
      and model_evaluate = example_scorer and l = "1 / 2" and n' = 2
      and ms' = "[(''accuracy'', SFloat (Finite (3 / 4))), (''down_bytes'', d')]"
      and v = "example_parameters ! 0" and w = "example_parameters ! 1"]
  have n: "params_nbytes example_parameters = 120" using w p q by metis
  have "d = SInt 120" using w f n by auto
  moreover have "d' = SInt 120" using w e n by auto
  ultimately show ?thesis using f e n by simp
qed

text \<open>
  C4, as amended: for a ParameterSet with the shapes of the model and a local
  partition of at least two examples with as many labels, \<^verbatim>\<open>fit\<close> trains the
  model whose weights are the received ones (the weights the model had before
  do not matter: the overwrite is full) with one training pass, over the
  first nine tenths of the partition (rounded down); the rest is held out for
  validation. It returns the weights of the trained model, the two byte
  counts, and as example count the size of the whole partition, which is
  larger than the number of examples of the pass.
\<close>

theorem fit_overwrites_and_trains_one_epoch:
  assumes "map shape ws = map shape (weights (model st))"
    and "length (y_train st) = length (x_train st)"
    and "2 \<le> length (x_train st)"
  shows "(let n = length (x_train st);
              k = split_at n (1 / 10);
              m2 = run_epoch ((model st)\<lparr>weights := ws\<rparr>) (take k (x_train st)) (take k (y_train st)) 32
          in k = (9 * n) div 10 \<and> length (take k (x_train st)) = k \<and> 0 < k \<and> k < n \<and>
             fit run_epoch st (map Array ws) config =
               (Inr (weights m2, n,
                     [(''up_bytes'', SInt (int (params_nbytes (weights m2)))),
                      (''down_bytes'', SInt (int (params_nbytes ws)))]),
                st\<lparr>model := m2\<rparr>)) \<and>
         (\<forall>old. map shape old = map shape ws \<longrightarrow>
            fit run_epoch (st\<lparr>model := (model st)\<lparr>weights := old\<rparr>\<rparr>) (map Array ws) config =
            fit run_epoch st (map Array ws) config)"
proof -
  have k: "0 < (9 * length (x_train st)) div 10" "(9 * length (x_train st)) div 10 < length (x_train st)"
    using assms(3) by auto
  have "fit run_epoch (st\<lparr>model := (model st)\<lparr>weights := old\<rparr>\<rparr>) (map Array ws) config =
        fit run_epoch st (map Array ws) config"
    if "map shape old = map shape ws" for old
  proof -
    let ?st = "st\<lparr>model := (model st)\<lparr>weights := old\<rparr>\<rparr>"
    have 1: "map shape ws = map shape (weights (model ?st))" using that by simp
    have 2: "length (y_train ?st) = length (x_train ?st)" using assms(2) by simp
    have 3: "2 \<le> length (x_train ?st)" using assms(3) by simp
    from fit_arrays[OF 1 2 3, of run_epoch config] fit_arrays[OF assms, of run_epoch config]
    show ?thesis by (simp add: Let_def)
  qed
  then show ?thesis
    using fit_arrays[OF assms, of run_epoch config] k
    by (simp add: Let_def split_at_tenth)
qed

theorem fit_overwrites_and_trains_one_epoch_witness:
  "map shape example_parameters = map shape (weights (model example_client)) \<and>
   length (y_train example_client) = length (x_train example_client) \<and>
   2 \<le> length (x_train example_client) \<and>
   split_at (length (x_train example_client)) (1 / 10) = 9 \<and>
   fit example_epoch example_client (map Array example_parameters) [] =
     (Inr (map (scale (1 / 2)) example_parameters, 10,
           [(''up_bytes'', SInt 120), (''down_bytes'', SInt 120)]),
      example_client\<lparr>model := \<lparr>weights = map (scale (1 / 2)) example_parameters, internals = 9\<rparr>\<rparr>) \<and>
   fit example_epoch
     (example_client\<lparr>model := (model example_client)\<lparr>weights := map (scale 3) example_parameters\<rparr>\<rparr>)
     (map Array example_parameters) [] =
   fit example_epoch example_client (map Array example_parameters) []"
proof -
  have s: "map shape example_parameters = map shape (weights (model example_client))"
    by (simp add: example_parameters_def example_client_def example_model_def)
  have l: "length (y_train example_client) = length (x_train example_client)"
    "2 \<le> length (x_train example_client)"
    by (simp_all add: example_client_def)
  have o: "map shape (map (scale 3) example_parameters) = map shape example_parameters"
    by (simp add: scale_def comp_def)
  have n: "params_nbytes example_parameters = 120"
    by (simp add: params_nbytes_def nbytes_def example_parameters_def)
  have n2: "params_nbytes (map (scale (1 / 2)) example_parameters) = 120"
    by (simp add: params_nbytes_def nbytes_def example_parameters_def scale_def)
  have x: "length (x_train example_client) = 10" "model example_client = example_model"
    by (simp_all add: example_client_def)
  have i: "internals example_model = 0" by (simp add: example_model_def)
  show ?thesis
    using s l o fit_overwrites_and_trains_one_epoch[OF s l, of example_epoch "[]"]
    by (simp add: Let_def example_epoch_def n n2 x i)
qed

text \<open>
  The claim as the spec words it fails: the example client has ten training
  examples and returns 10 as its example count, while the training pass, which
  adds the number of its examples to the counter of the model, has seen 9.
\<close>

theorem fit_example_count_counterexample:
  "fst (fit example_epoch example_client (map Array example_parameters) []) =
     Inr (map (scale (1 / 2)) example_parameters, 10,
          [(''up_bytes'', SInt 120), (''down_bytes'', SInt 120)]) \<and>
   internals (model example_client) = 0 \<and>
   internals (model (snd (fit example_epoch example_client (map Array example_parameters) []))) = 9"
proof -
  have s: "map shape example_parameters = map shape (weights (model example_client))"
    by (simp add: example_parameters_def example_client_def example_model_def)
  have l: "length (y_train example_client) = length (x_train example_client)"
    "2 \<le> length (x_train example_client)"
    by (simp_all add: example_client_def)
  have n: "params_nbytes example_parameters = 120"
    by (simp add: params_nbytes_def nbytes_def example_parameters_def)
  have n2: "params_nbytes (map (scale (1 / 2)) example_parameters) = 120"
    by (simp add: params_nbytes_def nbytes_def example_parameters_def scale_def)
  have x: "length (x_train example_client) = 10" "model example_client = example_model"
    by (simp_all add: example_client_def)
  have i: "internals example_model = 0" by (simp add: example_model_def)
  show ?thesis
    using fit_arrays[OF s l, of example_epoch "[]"]
    by (simp add: Let_def example_epoch_def n n2 x i)
qed

end
